theory Spec2Isabelle
  imports Main
begin

section \<open>The passkey server (server.js) as a state-passing model\<close>

text \<open>
  The server keeps two caches, \<open>userCache\<close> and \<open>challengeCache\<close>, and answers six
  routes. Each route handler is modelled as a function from the state before the request
  to the state after it and the HTTP response. A handler runs as one step: the interleaving
  of two requests at an \<open>await\<close> is outside this model.

  What the handlers draw from outside is an argument of the model:
  \<^item> \<open>now\<close>, the clock reading (milliseconds) the caches see during the request;
  \<^item> \<open>uuid\<close>, the value \<open>crypto.randomUUID()\<close> returns if it is called;
  \<^item> \<open>chal\<close>, the random challenge the options generator of the WebAuthn library draws;
  \<^item> the two verifiers of the WebAuthn library and the relying-party settings read from
    the process environment, collected in the record \<open>env\<close>.
\<close>

subsection \<open>The LRU cache with a time to live\<close>

text \<open>
  \<open>new LRUCache({max, ttl})\<close> of the lru-cache package, as its documentation describes it
  with the default options: the entries are kept in order of use (here: most recently used
  first), each with the time it was last set. \<open>get\<close> of a live entry makes it the most
  recently used and leaves its age; \<open>get\<close> of a stale entry removes it and returns
  undefined; \<open>has\<close> and \<open>peek\<close> change nothing; \<open>set\<close> makes the entry the most
  recently used, restarts its age, and a new key in a full cache evicts the least recently
  used entry; \<open>delete\<close> removes the entry.
\<close>

type_synonym ('k, 'v) lru = "('k \<times> 'v \<times> nat) list"

text \<open>An entry set at time \<open>start\<close> is stale once \<open>now - start > ttl\<close>.\<close>

definition isStale :: "nat \<Rightarrow> nat \<Rightarrow> nat \<Rightarrow> bool" where
  "isStale ttl now start \<longleftrightarrow> start + ttl < now"

definition lru_delete :: "'k \<Rightarrow> ('k, 'v) lru \<Rightarrow> ('k, 'v) lru" where
  "lru_delete k c = filter (\<lambda>e. fst e \<noteq> k) c"

definition lru_peek :: "nat \<Rightarrow> nat \<Rightarrow> 'k \<Rightarrow> ('k, 'v) lru \<Rightarrow> 'v option" where
  "lru_peek ttl now k c =
     (case map_of c k of
        None \<Rightarrow> None
      | Some (v, start) \<Rightarrow> if isStale ttl now start then None else Some v)"

definition lru_has :: "nat \<Rightarrow> nat \<Rightarrow> 'k \<Rightarrow> ('k, 'v) lru \<Rightarrow> bool" where
  "lru_has ttl now k c =
     (case map_of c k of
        None \<Rightarrow> False
      | Some (v, start) \<Rightarrow> \<not> isStale ttl now start)"

definition lru_get :: "nat \<Rightarrow> nat \<Rightarrow> 'k \<Rightarrow> ('k, 'v) lru \<Rightarrow> ('k, 'v) lru \<times> 'v option" where
  "lru_get ttl now k c =
     (case map_of c k of
        None \<Rightarrow> (c, None)
      | Some (v, start) \<Rightarrow>
          if isStale ttl now start then (lru_delete k c, None)
          else ((k, v, start) # lru_delete k c, Some v))"

definition lru_set :: "nat \<Rightarrow> nat \<Rightarrow> 'k \<Rightarrow> 'v \<Rightarrow> ('k, 'v) lru \<Rightarrow> ('k, 'v) lru" where
  "lru_set max_size now k v c =
     (case map_of c k of
        Some old \<Rightarrow> (k, v, now) # lru_delete k c
      | None \<Rightarrow> (k, v, now) # (if max_size \<le> length c then butlast c else c))"

subsection \<open>Data\<close>

text \<open>
  A device as \<open>/register/verify\<close> builds it; \<open>transports\<close> is
  \<open>response.response.transports\<close>, which the client may leave out.
\<close>

record authenticator =
  credentialPublicKey :: string
  credentialID :: string
  counter :: nat
  transports :: "string list option"

record user =
  user_id :: string
  username :: string
  devices :: "authenticator list"

record state =
  userCache :: "(string, user) lru"
  challengeCache :: "(string, string) lru"

definition userMax :: nat where "userMax = 100"
definition userTTL :: nat where "userTTL = 1000 * 60 * 60 * 24"
definition challengeMax :: nat where "challengeMax = 1000"
definition challengeTTL :: nat where "challengeTTL = 1000 * 60 * 5"

definition init_state :: state where
  "init_state = \<lparr>userCache = [], challengeCache = []\<rparr>"

text \<open>
  The \<open>response\<close> field of a verify request: \<open>response.id\<close>,
  \<open>response.response.transports\<close>, and the rest of the client's answer (client data,
  attestation or assertion, signature), which only the verifier reads.
\<close>

record client_response =
  response_id :: string
  response_transports :: "string list option"
  response_data :: string

text \<open>The arguments of the two verifiers.\<close>

record verify_opts =
  response :: client_response
  expectedChallenge :: string
  expectedOrigin :: string
  expectedRPID :: string

record auth_verify_opts = verify_opts +
  credential :: authenticator

text \<open>
  What the verifiers return: \<open>{verified, registrationInfo}\<close> with
  \<open>registrationInfo.credential = {id, publicKey, counter}\<close> when present, and
  \<open>{verified, authenticationInfo}\<close> with \<open>authenticationInfo.newCounter\<close>. A verifier
  that throws is \<open>Inl\<close> of the error's message.
\<close>

record credential_info =
  cred_id :: string
  cred_publicKey :: string
  cred_counter :: nat

record reg_verification =
  verified :: bool
  registrationInfo :: "credential_info option"

record auth_verification =
  verified_auth :: bool
  newCounter :: nat

record env =
  rpID :: string
  origin :: string
  verifyRegistrationResponse :: "verify_opts \<Rightarrow> string + reg_verification"
  verifyAuthenticationResponse :: "auth_verify_opts \<Rightarrow> string + auth_verification"

definition rpName :: string where "rpName = ''Passkey Demo''"

text \<open>
  The options objects the generators of the WebAuthn library return: the challenge drawn
  and what the server passed in.
\<close>

record reg_options =
  reg_challenge :: string
  reg_rpName :: string
  reg_rpID :: string
  reg_userID :: string
  reg_userName :: string
  reg_attestationType :: string
  reg_residentKey :: string
  reg_userVerification :: string
  reg_authenticatorAttachment :: string

record allow_credential =
  allow_id :: string
  allow_type :: string
  allow_transports :: "string list option"

record auth_options =
  auth_challenge :: string
  auth_rpID :: string
  allowCredentials :: "allow_credential list"
  auth_userVerification :: string

text \<open>The JSON bodies the routes send, and what a response does to the cookie.\<close>

datatype json =
    JError string
  | JVerified bool
  | JRegistrationOptions reg_options
  | JAuthenticationOptions auth_options
  | JSuccess bool
  | JMe bool "string option"

datatype cookie_effect = NoCookie | SetCookie string | ClearCookie

record http_response =
  status :: nat
  body :: json
  cookie :: cookie_effect

definition reply :: "nat \<Rightarrow> json \<Rightarrow> http_response" where
  "reply code j = \<lparr>status = code, body = j, cookie = NoCookie\<rparr>"

subsection \<open>Helpers\<close>

definition getUserByUsername :: "state \<Rightarrow> nat \<Rightarrow> string \<Rightarrow> state \<times> user option" where
  "getUserByUsername s now name =
     (case lru_get userTTL now name (userCache s) of
        (c, found) \<Rightarrow> (s\<lparr>userCache := c\<rparr>, found))"

definition createUser :: "state \<Rightarrow> nat \<Rightarrow> string \<Rightarrow> string \<Rightarrow> state \<times> user" where
  "createUser s now uuid name =
     (let u = \<lparr>user_id = uuid, username = name, devices = []\<rparr>
      in (s\<lparr>userCache := lru_set userMax now name u (userCache s)\<rparr>, u))"

definition getChallenge :: "state \<Rightarrow> nat \<Rightarrow> string \<Rightarrow> state \<times> string option" where
  "getChallenge s now uid =
     (case lru_get challengeTTL now uid (challengeCache s) of
        (c, found) \<Rightarrow> (s\<lparr>challengeCache := c\<rparr>, found))"

definition setChallenge :: "state \<Rightarrow> nat \<Rightarrow> string \<Rightarrow> string \<Rightarrow> state" where
  "setChallenge s now uid chal =
     s\<lparr>challengeCache := lru_set challengeMax now uid chal (challengeCache s)\<rparr>"

definition deleteChallenge :: "state \<Rightarrow> string \<Rightarrow> state" where
  "deleteChallenge s uid = s\<lparr>challengeCache := lru_delete uid (challengeCache s)\<rparr>"

definition setUser :: "state \<Rightarrow> nat \<Rightarrow> string \<Rightarrow> user \<Rightarrow> state" where
  "setUser s now name u = s\<lparr>userCache := lru_set userMax now name u (userCache s)\<rparr>"

definition generateRegistrationOptions :: "env \<Rightarrow> user \<Rightarrow> string \<Rightarrow> reg_options" where
  "generateRegistrationOptions e u chal =
     \<lparr>reg_challenge = chal, reg_rpName = rpName, reg_rpID = rpID e,
      reg_userID = user_id u, reg_userName = username u,
      reg_attestationType = ''none'', reg_residentKey = ''preferred'',
      reg_userVerification = ''preferred'', reg_authenticatorAttachment = ''platform''\<rparr>"

definition generateAuthenticationOptions :: "env \<Rightarrow> user \<Rightarrow> string \<Rightarrow> auth_options" where
  "generateAuthenticationOptions e u chal =
     \<lparr>auth_challenge = chal, auth_rpID = rpID e,
      allowCredentials =
        map (\<lambda>d. \<lparr>allow_id = credentialID d, allow_type = ''public-key'',
                  allow_transports = transports d\<rparr>) (devices u),
      auth_userVerification = ''preferred''\<rparr>"

text \<open>
  \<open>user.devices.find((d) => d.credentialID === response.id)\<close> is \<open>find\<close> of the list
  library; the assignment \<open>device.counter = newCounter\<close> changes that first match in place.
\<close>

fun set_counter :: "string \<Rightarrow> nat \<Rightarrow> authenticator list \<Rightarrow> authenticator list" where
  "set_counter cid n [] = []"
| "set_counter cid n (d # ds) =
     (if credentialID d = cid then d\<lparr>counter := n\<rparr> # ds else d # set_counter cid n ds)"

subsection \<open>The routes\<close>

text \<open>
  The request fields are taken at the types a client of this server sends:
  \<open>req.body.username\<close> is a string, where the empty string stands for every falsy value
  (a missing username is refused by \<open>/register/options\<close> like the empty one, and like it
  is no key of the user cache); \<open>req.body.response\<close> is a well-formed client response (a
  malformed one makes the verifier throw). A challenge read from the cache is falsy when it
  is missing or empty. A thrown error inside \<open>try\<close> is the result \<open>Inl\<close> of its message.
\<close>

definition register_options ::
  "env \<Rightarrow> state \<Rightarrow> nat \<Rightarrow> string \<Rightarrow> string \<Rightarrow> string \<Rightarrow> state \<times> http_response" where
  "register_options e s now uuid chal name =
     (if name = [] then (s, reply 400 (JError ''Username is required''))
      else
        case getUserByUsername s now name of (s1, found) \<Rightarrow>
        case (case found of Some u \<Rightarrow> (s1, u) | None \<Rightarrow> createUser s1 now uuid name)
        of (s2, u) \<Rightarrow>
          let options = generateRegistrationOptions e u chal
          in (setChallenge s2 now (user_id u) (reg_challenge options),
              reply 200 (JRegistrationOptions options)))"

definition register_verify ::
  "env \<Rightarrow> state \<Rightarrow> nat \<Rightarrow> string \<Rightarrow> client_response \<Rightarrow> state \<times> http_response" where
  "register_verify e s now name resp =
     (case getUserByUsername s now name of (s1, found) \<Rightarrow>
     (case found of
        None \<Rightarrow> (s1, reply 400 (JError ''User not found''))
      | Some u \<Rightarrow>
         (case getChallenge s1 now (user_id u) of (s2, found_challenge) \<Rightarrow>
         (case found_challenge of
            None \<Rightarrow> (s2, reply 400 (JError ''Challenge expired or not found''))
          | Some ch \<Rightarrow>
             (if ch = [] then (s2, reply 400 (JError ''Challenge expired or not found''))
              else
               (case verifyRegistrationResponse e
                       \<lparr>response = resp, expectedChallenge = ch,
                        expectedOrigin = origin e, expectedRPID = rpID e\<rparr> of
                  Inl msg \<Rightarrow> (s2, reply 400 (JError msg))
                | Inr verification \<Rightarrow>
                   (case registrationInfo verification of
                      Some info \<Rightarrow>
                       (if verified verification then
                          let newDevice =
                                \<lparr>credentialPublicKey = cred_publicKey info,
                                 credentialID = cred_id info,
                                 counter = cred_counter info,
                                 transports = response_transports resp\<rparr>;
                              u' = u\<lparr>devices := devices u @ [newDevice]\<rparr>;
                              s3 = setUser s2 now name u';
                              s4 = deleteChallenge s3 (user_id u')
                          in (s4, reply 200 (JVerified True))
                        else (s2, reply 400 (JVerified False)))
                    | None \<Rightarrow> (s2, reply 400 (JVerified False)))))))))"

definition login_options ::
  "env \<Rightarrow> state \<Rightarrow> nat \<Rightarrow> string \<Rightarrow> string \<Rightarrow> state \<times> http_response" where
  "login_options e s now chal name =
     (case getUserByUsername s now name of (s1, found) \<Rightarrow>
     (case found of
        None \<Rightarrow> (s1, reply 400 (JError ''User not found''))
      | Some u \<Rightarrow>
          let options = generateAuthenticationOptions e u chal
          in (setChallenge s1 now (user_id u) (auth_challenge options),
              reply 200 (JAuthenticationOptions options))))"

definition login_verify ::
  "env \<Rightarrow> state \<Rightarrow> nat \<Rightarrow> string \<Rightarrow> client_response \<Rightarrow> state \<times> http_response" where
  "login_verify e s now name resp =
     (case getUserByUsername s now name of (s1, found) \<Rightarrow>
     (case found of
        None \<Rightarrow> (s1, reply 400 (JError ''User not found''))
      | Some u \<Rightarrow>
         (case getChallenge s1 now (user_id u) of (s2, found_challenge) \<Rightarrow>
         (case found_challenge of
            None \<Rightarrow> (s2, reply 400 (JError ''Challenge expired or not found''))
          | Some ch \<Rightarrow>
             (if ch = [] then (s2, reply 400 (JError ''Challenge expired or not found''))
              else
               (case find (\<lambda>d. credentialID d = response_id resp) (devices u) of
                  None \<Rightarrow> (s2, reply 400 (JError ''Authenticator not found for this user''))
                | Some device \<Rightarrow>
                   (case verifyAuthenticationResponse e
                           \<lparr>response = resp, expectedChallenge = ch,
                            expectedOrigin = origin e, expectedRPID = rpID e,
                            credential = device\<rparr> of
                      Inl msg \<Rightarrow> (s2, reply 400 (JError msg))
                    | Inr verification \<Rightarrow>
                       (if verified_auth verification then
                          let u' = u\<lparr>devices :=
                                      set_counter (response_id resp) (newCounter verification)
                                        (devices u)\<rparr>;
                              s3 = setUser s2 now name u';
                              s4 = deleteChallenge s3 (user_id u')
                          in (s4, \<lparr>status = 200, body = JVerified True,
                                   cookie = SetCookie name\<rparr>)
                        else (s2, reply 400 (JVerified False))))))))))"

definition logout :: "state \<Rightarrow> state \<times> http_response" where
  "logout s = (s, \<lparr>status = 200, body = JSuccess True, cookie = ClearCookie\<rparr>)"

text \<open>
  \<open>req.cookies.username\<close> is \<open>None\<close> when the request carries no such cookie; an empty
  cookie value is falsy like a missing one.
\<close>

definition me :: "state \<Rightarrow> nat \<Rightarrow> string option \<Rightarrow> state \<times> http_response" where
  "me s now presented =
     (case presented of
        None \<Rightarrow> (s, reply 200 (JMe False None))
      | Some name \<Rightarrow>
          if name \<noteq> [] \<and> lru_has userTTL now name (userCache s)
          then (s, reply 200 (JMe True (Some name)))
          else (s, reply 200 (JMe False None)))"

text \<open>The browser's cookie jar after a response.\<close>

fun apply_cookie :: "cookie_effect \<Rightarrow> string option \<Rightarrow> string option" where
  "apply_cookie NoCookie jar = jar"
| "apply_cookie (SetCookie v) jar = Some v"
| "apply_cookie ClearCookie jar = None"


subsection \<open>Requests and runs\<close>

text \<open>
  The router: one constructor per route, with what the handler reads from the request
  (\<open>req.body.username\<close>, \<open>req.body.response\<close>, \<open>req.cookies.username\<close>). A run
  serves a list of requests from a state; each request comes with the clock reading, the
  UUID and the challenge its handler would draw. The reachable states of the server are
  the states \<open>run e init_state evs\<close>.
\<close>

datatype request =
    PostRegisterOptions string
  | PostRegisterVerify string client_response
  | PostLoginOptions string
  | PostLoginVerify string client_response
  | PostLogout
  | GetMe "string option"

fun handle ::
  "env \<Rightarrow> state \<Rightarrow> nat \<Rightarrow> string \<Rightarrow> string \<Rightarrow> request \<Rightarrow> state \<times> http_response" where
  "handle e s now uuid chal (PostRegisterOptions name) = register_options e s now uuid chal name"
| "handle e s now uuid chal (PostRegisterVerify name resp) = register_verify e s now name resp"
| "handle e s now uuid chal (PostLoginOptions name) = login_options e s now chal name"
| "handle e s now uuid chal (PostLoginVerify name resp) = login_verify e s now name resp"
| "handle e s now uuid chal PostLogout = logout s"
| "handle e s now uuid chal (GetMe presented) = me s now presented"

fun run :: "env \<Rightarrow> state \<Rightarrow> (nat \<times> string \<times> string \<times> request) list \<Rightarrow> state" where
  "run e s [] = s"
| "run e s ((now, uuid, chal, r) # evs) = run e (fst (handle e s now uuid chal r)) evs"

subsection \<open>The counter check of the verifier\<close>



subsection \<open>Example environments and states\<close>

text \<open>
  Stand-ins for the verifiers of the WebAuthn library, used to run the model on concrete
  requests. \<open>demo_env\<close> accepts a response whose data is the expected challenge; at login
  it reports the stored counter plus one. \<open>rejecting_env\<close> returns a result that is not
  verified; \<open>no_info_env\<close> returns a registration result that is verified but
  carries no \<open>registrationInfo\<close>; \<open>failing_env msg\<close> throws an error with message
  \<open>msg\<close>.
\<close>

definition demo_env :: env where
  "demo_env =
     \<lparr>rpID = ''localhost'', origin = ''http://localhost:3000'',
      verifyRegistrationResponse = (\<lambda>opts.
        if response_data (response opts) = expectedChallenge opts
        then Inr \<lparr>verified = True,
                  registrationInfo = Some \<lparr>cred_id = response_id (response opts),
                                            cred_publicKey = ''pk'',
                                            cred_counter = 0\<rparr>\<rparr>
        else Inl ''Unexpected registration response challenge''),
      verifyAuthenticationResponse = (\<lambda>opts.
        if response_data (response opts) = expectedChallenge opts
        then Inr \<lparr>verified_auth = True,
                  newCounter = Suc (counter (credential opts))\<rparr>
        else Inl ''Unexpected authentication response challenge'')\<rparr>"

definition rejecting_env :: env where
  "rejecting_env =
     \<lparr>rpID = ''localhost'', origin = ''http://localhost:3000'',
      verifyRegistrationResponse = (\<lambda>opts. Inr \<lparr>verified = False, registrationInfo = None\<rparr>),
      verifyAuthenticationResponse = (\<lambda>opts. Inr \<lparr>verified_auth = False, newCounter = 0\<rparr>)\<rparr>"

definition no_info_env :: env where
  "no_info_env =
     \<lparr>rpID = ''localhost'', origin = ''http://localhost:3000'',
      verifyRegistrationResponse = (\<lambda>opts. Inr \<lparr>verified = True, registrationInfo = None\<rparr>),
      verifyAuthenticationResponse = (\<lambda>opts. Inr \<lparr>verified_auth = False, newCounter = 0\<rparr>)\<rparr>"

definition failing_env :: "string \<Rightarrow> env" where
  "failing_env msg =
     \<lparr>rpID = ''localhost'', origin = ''http://localhost:3000'',
      verifyRegistrationResponse = (\<lambda>opts. Inl msg),
      verifyAuthenticationResponse = (\<lambda>opts. Inl msg)\<rparr>"

text \<open>A client response for credential \<open>cid\<close> that answers the challenge \<open>chal\<close>.\<close>

definition answer :: "string \<Rightarrow> string \<Rightarrow> client_response" where
  "answer cid chal =
     \<lparr>response_id = cid, response_transports = Some [''internal''], response_data = chal\<rparr>"

text \<open>
  Alice at the stages of registering a device and logging in with it: created by
  \<open>/register/options\<close> at time 10 with challenge \<open>c1\<close> pending; registered at time 11;
  with the login challenge \<open>c3\<close> of time 20 pending; logged in at time 21.
\<close>

definition alice_new :: user where
  "alice_new = \<lparr>user_id = ''u1'', username = ''alice'', devices = []\<rparr>"

definition alice :: user where
  "alice = \<lparr>user_id = ''u1'', username = ''alice'',
            devices = [\<lparr>credentialPublicKey = ''pk'', credentialID = ''cred-1'',
                        counter = 0, transports = Some [''internal'']\<rparr>]\<rparr>"

definition alice_used :: user where
  "alice_used = \<lparr>user_id = ''u1'', username = ''alice'',
            devices = [\<lparr>credentialPublicKey = ''pk'', credentialID = ''cred-1'',
                        counter = 1, transports = Some [''internal'']\<rparr>]\<rparr>"

definition alice_pending :: state where
  "alice_pending =
     \<lparr>userCache = [(''alice'', alice_new, 10)], challengeCache = [(''u1'', ''c1'', 10)]\<rparr>"

definition alice_registered :: state where
  "alice_registered = \<lparr>userCache = [(''alice'', alice, 11)], challengeCache = []\<rparr>"

definition alice_login_pending :: state where
  "alice_login_pending =
     \<lparr>userCache = [(''alice'', alice, 11)], challengeCache = [(''u1'', ''c3'', 20)]\<rparr>"

definition alice_logged_in :: state where
  "alice_logged_in = \<lparr>userCache = [(''alice'', alice_used, 21)], challengeCache = []\<rparr>"

text \<open>
  Bob, created at time 30 with challenge \<open>c5\<close> pending, in a server that knows Alice and
  her device \<open>cred-1\<close>.
\<close>

definition bob_new :: user where
  "bob_new = \<lparr>user_id = ''u2'', username = ''bob'', devices = []\<rparr>"

definition bob_pending :: state where
  "bob_pending =
     \<lparr>userCache = [(''bob'', bob_new, 30), (''alice'', alice, 11)],
      challengeCache = [(''u2'', ''c5'', 30)]\<rparr>"

text \<open>
  Alice registers device \<open>cred-1\<close> and logs in with it: four requests, each with its
  clock reading and the UUID and challenge drawn while it is served.
\<close>

definition alice_session :: "(nat \<times> string \<times> string \<times> request) list" where
  "alice_session =
     [(10, ''u1'', ''c1'', PostRegisterOptions ''alice''),
      (11, ''u2'', ''c2'', PostRegisterVerify ''alice'' (answer ''cred-1'' ''c1'')),
      (20, ''u3'', ''c3'', PostLoginOptions ''alice''),
      (21, ''u4'', ''c4'', PostLoginVerify ''alice'' (answer ''cred-1'' ''c3''))]"

section \<open>Properties\<close>

subsection \<open>The cache\<close>

lemma map_of_lru_delete:
  "map_of (lru_delete k c) k' = (if k' = k then None else map_of c k')"
  unfolding lru_delete_def by (induction c) auto

lemma lru_delete_absent: "map_of c k = None \<Longrightarrow> lru_delete k c = c"
  unfolding lru_delete_def by (induction c) (auto split: if_splits)

lemma snd_lru_get: "snd (lru_get ttl now k c) = lru_peek ttl now k c"
  by (simp add: lru_get_def lru_peek_def split: option.splits prod.splits)

lemma fst_lru_get_dead:
  "lru_peek ttl now k c = None \<Longrightarrow> fst (lru_get ttl now k c) = lru_delete k c"
  by (auto simp: lru_get_def lru_peek_def lru_delete_absent split: option.splits if_splits)

lemma map_of_lru_get:
  "map_of (fst (lru_get ttl now k c)) k' =
     (if k' = k \<and> lru_peek ttl now k c = None then None else map_of c k')"
  by (auto simp: lru_get_def lru_peek_def map_of_lru_delete split: option.splits prod.splits)

lemma map_of_lru_set_same: "map_of (lru_set m now k v c) k = Some (v, now)"
  by (simp add: lru_set_def split: option.splits)

lemma lru_peek_set_same:
  "lru_peek ttl now' k (lru_set m now k v c) = (if isStale ttl now' now then None else Some v)"
  by (simp add: lru_peek_def map_of_lru_set_same)

lemma lru_peek_delete_same: "lru_peek ttl now k (lru_delete k c) = None"
  by (simp add: lru_peek_def map_of_lru_delete)

lemma lru_peek_get:
  "lru_peek ttl now' k' (fst (lru_get ttl now k c)) =
     (if k' = k \<and> lru_peek ttl now k c = None then None else lru_peek ttl now' k' c)"
  by (simp add: lru_peek_def map_of_lru_get)

lemma lru_has_peek: "lru_has ttl now k c \<longleftrightarrow> lru_peek ttl now k c \<noteq> None"
  by (simp add: lru_has_def lru_peek_def split: option.splits)

lemma keys_lru_delete: "fst ` set (lru_delete k c) \<subseteq> fst ` set c"
  by (auto simp: lru_delete_def)

lemma map_of_key: "map_of c k = Some v \<Longrightarrow> k \<in> fst ` set c"
  by (force dest: map_of_SomeD)

lemma keys_lru_get: "fst ` set (fst (lru_get ttl now k c)) \<subseteq> fst ` set c"
  using keys_lru_delete [of k c]
  by (auto simp: lru_get_def split: option.splits dest: map_of_key)

lemma keys_lru_set: "fst ` set (lru_set m now k v c) \<subseteq> insert k (fst ` set c)"
  using keys_lru_delete [of k c]
  by (auto simp: lru_set_def split: option.splits dest!: in_set_butlastD)

lemma lru_peek_key: "lru_peek ttl now k c = Some v \<Longrightarrow> k \<in> fst ` set c"
  by (auto simp: lru_peek_def split: option.splits if_splits dest: map_of_key)

subsection \<open>The routes, by the entries that are live\<close>

lemma getUserByUsername_eq:
  "getUserByUsername s now name =
     (s\<lparr>userCache := fst (lru_get userTTL now name (userCache s))\<rparr>,
      lru_peek userTTL now name (userCache s))"
  by (simp add: getUserByUsername_def case_prod_beta snd_lru_get)

lemma getChallenge_eq:
  "getChallenge s now uid =
     (s\<lparr>challengeCache := fst (lru_get challengeTTL now uid (challengeCache s))\<rparr>,
      lru_peek challengeTTL now uid (challengeCache s))"
  by (simp add: getChallenge_def case_prod_beta snd_lru_get)

lemma register_verify_no_user:
  "lru_peek userTTL now name (userCache s) = None \<Longrightarrow>
   register_verify e s now name resp =
     (s\<lparr>userCache := fst (lru_get userTTL now name (userCache s))\<rparr>,
      reply 400 (JError ''User not found''))"
  by (simp add: register_verify_def getUserByUsername_eq)

lemma register_verify_no_challenge:
  "lru_peek userTTL now name (userCache s) = Some u \<Longrightarrow>
   lru_peek challengeTTL now (user_id u) (challengeCache s) = None \<or>
   lru_peek challengeTTL now (user_id u) (challengeCache s) = Some [] \<Longrightarrow>
   register_verify e s now name resp =
     (\<lparr>userCache = fst (lru_get userTTL now name (userCache s)),
       challengeCache = fst (lru_get challengeTTL now (user_id u) (challengeCache s))\<rparr>,
      reply 400 (JError ''Challenge expired or not found''))"
  by (auto simp add: register_verify_def getUserByUsername_eq getChallenge_eq)

lemma register_verify_live:
  "lru_peek userTTL now name (userCache s) = Some u \<Longrightarrow>
   lru_peek challengeTTL now (user_id u) (challengeCache s) = Some ch \<Longrightarrow> ch \<noteq> [] \<Longrightarrow>
   register_verify e s now name resp =
     (let s2 = \<lparr>userCache = fst (lru_get userTTL now name (userCache s)),
                challengeCache = fst (lru_get challengeTTL now (user_id u) (challengeCache s))\<rparr>
      in case verifyRegistrationResponse e
                \<lparr>response = resp, expectedChallenge = ch,
                 expectedOrigin = origin e, expectedRPID = rpID e\<rparr> of
           Inl msg \<Rightarrow> (s2, reply 400 (JError msg))
         | Inr v \<Rightarrow>
            (case registrationInfo v of
               None \<Rightarrow> (s2, reply 400 (JVerified False))
             | Some info \<Rightarrow>
                 if verified v then
                   (\<lparr>userCache = lru_set userMax now name
                        (u\<lparr>devices := devices u @
                           [\<lparr>credentialPublicKey = cred_publicKey info,
                             credentialID = cred_id info,
                             counter = cred_counter info,
                             transports = response_transports resp\<rparr>]\<rparr>)
                        (userCache s2),
                     challengeCache = lru_delete (user_id u) (challengeCache s2)\<rparr>,
                    reply 200 (JVerified True))
                 else (s2, reply 400 (JVerified False))))"
  by (simp add: register_verify_def getUserByUsername_eq getChallenge_eq Let_def
      setUser_def deleteChallenge_def split: sum.splits option.splits)

lemma login_verify_no_user:
  "lru_peek userTTL now name (userCache s) = None \<Longrightarrow>
   login_verify e s now name resp =
     (s\<lparr>userCache := fst (lru_get userTTL now name (userCache s))\<rparr>,
      reply 400 (JError ''User not found''))"
  by (simp add: login_verify_def getUserByUsername_eq)

lemma login_verify_no_challenge:
  "lru_peek userTTL now name (userCache s) = Some u \<Longrightarrow>
   lru_peek challengeTTL now (user_id u) (challengeCache s) = None \<or>
   lru_peek challengeTTL now (user_id u) (challengeCache s) = Some [] \<Longrightarrow>
   login_verify e s now name resp =
     (\<lparr>userCache = fst (lru_get userTTL now name (userCache s)),
       challengeCache = fst (lru_get challengeTTL now (user_id u) (challengeCache s))\<rparr>,
      reply 400 (JError ''Challenge expired or not found''))"
  by (auto simp add: login_verify_def getUserByUsername_eq getChallenge_eq)

lemma login_verify_live:
  "lru_peek userTTL now name (userCache s) = Some u \<Longrightarrow>
   lru_peek challengeTTL now (user_id u) (challengeCache s) = Some ch \<Longrightarrow> ch \<noteq> [] \<Longrightarrow>
   login_verify e s now name resp =
     (let s2 = \<lparr>userCache = fst (lru_get userTTL now name (userCache s)),
                challengeCache = fst (lru_get challengeTTL now (user_id u) (challengeCache s))\<rparr>
      in case find (\<lambda>d. credentialID d = response_id resp) (devices u) of
           None \<Rightarrow> (s2, reply 400 (JError ''Authenticator not found for this user''))
         | Some device \<Rightarrow>
            (case verifyAuthenticationResponse e
                    \<lparr>response = resp, expectedChallenge = ch,
                     expectedOrigin = origin e, expectedRPID = rpID e,
                     credential = device\<rparr> of
               Inl msg \<Rightarrow> (s2, reply 400 (JError msg))
             | Inr v \<Rightarrow>
                 if verified_auth v then
                   (\<lparr>userCache = lru_set userMax now name
                        (u\<lparr>devices := set_counter (response_id resp) (newCounter v) (devices u)\<rparr>)
                        (userCache s2),
                     challengeCache = lru_delete (user_id u) (challengeCache s2)\<rparr>,
                    \<lparr>status = 200, body = JVerified True, cookie = SetCookie name\<rparr>)
                 else (s2, reply 400 (JVerified False))))"
  by (simp add: login_verify_def getUserByUsername_eq getChallenge_eq Let_def
      setUser_def deleteChallenge_def split: sum.splits option.splits)

lemma register_options_eq:
  "name \<noteq> [] \<Longrightarrow>
   register_options e s now uuid chal name =
     (case lru_peek userTTL now name (userCache s) of
        Some u \<Rightarrow>
          (\<lparr>userCache = fst (lru_get userTTL now name (userCache s)),
            challengeCache = lru_set challengeMax now (user_id u) chal (challengeCache s)\<rparr>,
           reply 200 (JRegistrationOptions (generateRegistrationOptions e u chal)))
      | None \<Rightarrow>
          (\<lparr>userCache = lru_set userMax now name
                \<lparr>user_id = uuid, username = name, devices = []\<rparr>
                (fst (lru_get userTTL now name (userCache s))),
            challengeCache = lru_set challengeMax now uuid chal (challengeCache s)\<rparr>,
           reply 200 (JRegistrationOptions
             (generateRegistrationOptions e
                \<lparr>user_id = uuid, username = name, devices = []\<rparr> chal))))"
  by (simp add: register_options_def getUserByUsername_eq createUser_def setChallenge_def
      generateRegistrationOptions_def Let_def split: option.splits)

lemma login_options_eq:
  "login_options e s now chal name =
     (case lru_peek userTTL now name (userCache s) of
        Some u \<Rightarrow>
          (\<lparr>userCache = fst (lru_get userTTL now name (userCache s)),
            challengeCache = lru_set challengeMax now (user_id u) chal (challengeCache s)\<rparr>,
           reply 200 (JAuthenticationOptions (generateAuthenticationOptions e u chal)))
      | None \<Rightarrow>
          (s\<lparr>userCache := fst (lru_get userTTL now name (userCache s))\<rparr>,
           reply 400 (JError ''User not found'')))"
  by (simp add: login_options_def getUserByUsername_eq setChallenge_def
      generateAuthenticationOptions_def Let_def split: option.splits)

subsection \<open>The usernames in the user cache\<close>

lemma keys_register_options:
  "fst ` set (userCache (fst (register_options e s now uuid chal name)))
     \<subseteq> (if name = [] then {} else {name}) \<union> fst ` set (userCache s)"
proof (cases "name = []")
  case True
  then show ?thesis by (simp add: register_options_def)
next
  case False
  let ?c = "fst (lru_get userTTL now name (userCache s))"
  have get: "fst ` set ?c \<subseteq> fst ` set (userCache s)"
    by (rule keys_lru_get)
  have "fst ` set (lru_set userMax now name v ?c) \<subseteq> insert name (fst ` set (userCache s))" for v
    using keys_lru_set [of userMax now name v ?c] get by blast
  then show ?thesis
    using get False by (auto simp: register_options_eq [OF False] split: option.splits)
qed

lemma keys_login_options:
  "fst ` set (userCache (fst (login_options e s now chal name))) \<subseteq> fst ` set (userCache s)"
  using keys_lru_get [of userTTL now name "userCache s"]
  by (auto simp: login_options_eq split: option.splits)

lemma keys_set_live:
  assumes "lru_peek ttl now k c = Some u"
  shows "fst ` set (lru_set m now' k v (fst (lru_get ttl now k c))) \<subseteq> fst ` set c"
  using keys_lru_set [of m now' k v "fst (lru_get ttl now k c)"]
    keys_lru_get [of ttl now k c] lru_peek_key [OF assms]
  by auto

lemma keys_register_verify:
  "fst ` set (userCache (fst (register_verify e s now name resp))) \<subseteq> fst ` set (userCache s)"
proof (cases "lru_peek userTTL now name (userCache s)")
  case None
  then show ?thesis
    using keys_lru_get [of userTTL now name "userCache s"]
    by (simp add: register_verify_no_user)
next
  case (Some u)
  note get = keys_lru_get [of userTTL now name "userCache s"]
  show ?thesis
  proof (cases "lru_peek challengeTTL now (user_id u) (challengeCache s) = None \<or>
                lru_peek challengeTTL now (user_id u) (challengeCache s) = Some []")
    case True
    then show ?thesis
      using get by (simp add: register_verify_no_challenge [OF Some])
  next
    case False
    then obtain ch where ch: "lru_peek challengeTTL now (user_id u) (challengeCache s) = Some ch"
      "ch \<noteq> []" by auto
    show ?thesis
      using get keys_set_live [OF Some, of userMax now]
      by (simp add: register_verify_live [OF Some ch] Let_def split: sum.splits option.splits)
  qed
qed

lemma keys_login_verify:
  "fst ` set (userCache (fst (login_verify e s now name resp))) \<subseteq> fst ` set (userCache s)"
proof (cases "lru_peek userTTL now name (userCache s)")
  case None
  then show ?thesis
    using keys_lru_get [of userTTL now name "userCache s"]
    by (simp add: login_verify_no_user)
next
  case (Some u)
  note get = keys_lru_get [of userTTL now name "userCache s"]
  show ?thesis
  proof (cases "lru_peek challengeTTL now (user_id u) (challengeCache s) = None \<or>
                lru_peek challengeTTL now (user_id u) (challengeCache s) = Some []")
    case True
    then show ?thesis
      using get by (simp add: login_verify_no_challenge [OF Some])
  next
    case False
    then obtain ch where ch: "lru_peek challengeTTL now (user_id u) (challengeCache s) = Some ch"
      "ch \<noteq> []" by auto
    show ?thesis
      using get keys_set_live [OF Some, of userMax now]
      by (simp add: login_verify_live [OF Some ch] Let_def split: sum.splits option.splits)
  qed
qed

lemma no_empty_name_handle:
  assumes "[] \<notin> fst ` set (userCache s)"
  shows "[] \<notin> fst ` set (userCache (fst (handle e s now uuid chal r)))"
proof (cases r)
  case (PostRegisterOptions name)
  then show ?thesis
    using assms keys_register_options [of e s now uuid chal name]
    by (auto split: if_splits)
next
  case (PostRegisterVerify name resp)
  then show ?thesis using assms keys_register_verify [of e s now name resp] by auto
next
  case (PostLoginOptions name)
  then show ?thesis using assms keys_login_options [of e s now chal name] by auto
next
  case (PostLoginVerify name resp)
  then show ?thesis using assms keys_login_verify [of e s now name resp] by auto
next
  case PostLogout
  then show ?thesis using assms by (simp add: logout_def)
next
  case (GetMe presented)
  then show ?thesis using assms by (simp add: me_def split: option.splits)
qed

lemma no_empty_name_run:
  "[] \<notin> fst ` set (userCache s) \<Longrightarrow> [] \<notin> fst ` set (userCache (run e s evs))"
proof (induction evs arbitrary: s)
  case Nil
  then show ?case by simp
next
  case (Cons ev evs)
  obtain now uuid chal r where ev: "ev = (now, uuid, chal, r)" by (cases ev) auto
  show ?case
    unfolding ev run.simps
    by (rule Cons.IH) (rule no_empty_name_handle [OF Cons.prems])
qed

subsection \<open>The example session, step by step\<close>

lemmas route_defs = register_options_def register_verify_def login_options_def login_verify_def
  getUserByUsername_def getChallenge_def createUser_def setUser_def setChallenge_def
  deleteChallenge_def lru_get_def lru_set_def lru_delete_def isStale_def
  generateRegistrationOptions_def generateAuthenticationOptions_def
  userTTL_def userMax_def challengeTTL_def challengeMax_def reply_def Let_def

lemmas example_defs = alice_new_def alice_def alice_used_def alice_pending_def
  alice_registered_def alice_login_pending_def alice_logged_in_def init_state_def
  bob_new_def bob_pending_def demo_env_def answer_def rpName_def

lemma alice_session_step1:
  "register_options demo_env init_state 10 ''u1'' ''c1'' ''alice'' =
     (alice_pending,
      reply 200 (JRegistrationOptions (generateRegistrationOptions demo_env alice_new ''c1'')))"
  by (simp add: example_defs route_defs)

lemma alice_session_step2:
  "register_verify demo_env alice_pending 11 ''alice'' (answer ''cred-1'' ''c1'') =
     (alice_registered, reply 200 (JVerified True))"
  by (simp add: example_defs route_defs)

lemma alice_session_step3:
  "login_options demo_env alice_registered 20 ''c3'' ''alice'' =
     (alice_login_pending,
      reply 200 (JAuthenticationOptions (generateAuthenticationOptions demo_env alice ''c3'')))"
  by (simp add: example_defs route_defs)

lemma alice_session_step4:
  "login_verify demo_env alice_login_pending 21 ''alice'' (answer ''cred-1'' ''c3'') =
     (alice_logged_in, \<lparr>status = 200, body = JVerified True, cookie = SetCookie ''alice''\<rparr>)"
  by (simp add: example_defs route_defs)

lemma alice_session_state: "run demo_env init_state alice_session = alice_logged_in"
  by (simp add: alice_session_def alice_session_step1 alice_session_step2
      alice_session_step3 alice_session_step4)

subsection \<open>Unknown users at the two options routes\<close>

text \<open>
  C5. For a username with no live entry in \<open>userCache\<close>, \<open>/login/options\<close> answers 400
  "User not found" and creates nothing: the challenge cache is as before, the user cache is
  as before up to the purge of that username's expired entry (with no entry at all the
  state is the same), and the username has no entry afterwards. \<open>/register/options\<close> for
  the same username, if it is not empty, answers 200 with the options and has created the
  user with the fresh id and no devices.
\<close>

theorem login_options_unknown_user:
  assumes "\<not> lru_has userTTL now name (userCache s)"
  shows "snd (login_options e s now chal name) = reply 400 (JError ''User not found'') \<and>
         fst (login_options e s now chal name) = s\<lparr>userCache := lru_delete name (userCache s)\<rparr> \<and>
         (map_of (userCache s) name = None \<longrightarrow> fst (login_options e s now chal name) = s) \<and>
         map_of (userCache (fst (login_options e s now chal name))) name = None \<and>
         (name \<noteq> [] \<longrightarrow>
            snd (register_options e s now uuid chal name) =
              reply 200 (JRegistrationOptions (generateRegistrationOptions e
                 \<lparr>user_id = uuid, username = name, devices = []\<rparr> chal)) \<and>
            lru_peek userTTL now name (userCache (fst (register_options e s now uuid chal name)))
              = Some \<lparr>user_id = uuid, username = name, devices = []\<rparr>)"
proof -
  from assms have dead: "lru_peek userTTL now name (userCache s) = None"
    by (simp add: lru_has_peek)
  have purge: "fst (lru_get userTTL now name (userCache s)) = lru_delete name (userCache s)"
    using dead by (rule fst_lru_get_dead)
  have l: "login_options e s now chal name =
             (s\<lparr>userCache := lru_delete name (userCache s)\<rparr>,
              reply 400 (JError ''User not found''))"
    by (simp add: login_options_eq dead purge)
  have r: "name \<noteq> [] \<Longrightarrow> register_options e s now uuid chal name =
             (\<lparr>userCache = lru_set userMax now name
                  \<lparr>user_id = uuid, username = name, devices = []\<rparr>
                  (lru_delete name (userCache s)),
               challengeCache = lru_set challengeMax now uuid chal (challengeCache s)\<rparr>,
              reply 200 (JRegistrationOptions (generateRegistrationOptions e
                 \<lparr>user_id = uuid, username = name, devices = []\<rparr> chal)))"
    by (simp add: register_options_eq dead purge)
  show ?thesis
    using r by (simp add: l lru_delete_absent map_of_lru_delete lru_peek_set_same isStale_def)
qed

theorem login_options_unknown_user_witness:
  "\<not> lru_has userTTL 20 ''bob'' (userCache alice_registered) \<and>
   login_options demo_env alice_registered 20 ''c1'' ''bob'' =
     (alice_registered, reply 400 (JError ''User not found'')) \<and>
   lru_peek userTTL 20 ''bob''
     (userCache (fst (register_options demo_env alice_registered 20 ''u2'' ''c1'' ''bob'')))
     = Some \<lparr>user_id = ''u2'', username = ''bob'', devices = []\<rparr>"
proof -
  have h: "\<not> lru_has userTTL 20 ''bob'' (userCache alice_registered)"
    by (simp add: lru_has_def alice_registered_def)
  have m: "map_of (userCache alice_registered) ''bob'' = None"
    by (simp add: alice_registered_def)
  show ?thesis
    using h m login_options_unknown_user [OF h, of demo_env "''c1''" "''u2''"]
    by (metis list.distinct(1) prod.collapse)
qed

subsection \<open>The session marker\<close>

text \<open>
  C7. In every reachable state, \<open>/me\<close> answers \<open>{loggedIn: true, username}\<close> exactly when
  the request presents a \<open>username\<close> cookie whose value has a live entry in \<open>userCache\<close>,
  and \<open>{loggedIn: false}\<close> exactly when it does not; it changes nothing. \<open>/logout\<close>
  always answers 200 \<open>{success: true}\<close> and clears the cookie, after which \<open>/me\<close> from
  that browser answers \<open>{loggedIn: false}\<close>.
\<close>

theorem me_logged_in_iff:
  "(snd (me (run e init_state evs) now presented) = reply 200 (JMe True (Some name))
      \<longleftrightarrow> presented = Some name \<and> lru_has userTTL now name (userCache (run e init_state evs))) \<and>
   (snd (me (run e init_state evs) now presented) = reply 200 (JMe False None)
      \<longleftrightarrow> \<not> (\<exists>n. presented = Some n \<and> lru_has userTTL now n (userCache (run e init_state evs)))) \<and>
   fst (me s now presented) = s \<and>
   logout s = (s, \<lparr>status = 200, body = JSuccess True, cookie = ClearCookie\<rparr>) \<and>
   snd (me (fst (logout s)) now' (apply_cookie (cookie (snd (logout s))) presented))
     = reply 200 (JMe False None)"
proof -
  have "[] \<notin> fst ` set (userCache (run e init_state evs))"
    by (rule no_empty_name_run) (simp add: init_state_def)
  then have "map_of (userCache (run e init_state evs)) [] = None"
    by (simp add: map_of_eq_None_iff)
  then have "\<not> lru_has userTTL now [] (userCache (run e init_state evs))"
    by (simp add: lru_has_def)
  then show ?thesis
    by (auto simp: me_def logout_def reply_def split: option.splits)
qed

theorem me_logged_in_iff_witness:
  "lru_has userTTL 30 ''alice'' (userCache (run demo_env init_state alice_session)) \<and>
   snd (me (run demo_env init_state alice_session) 30 (Some ''alice''))
     = reply 200 (JMe True (Some ''alice'')) \<and>
   snd (me (run demo_env init_state alice_session) 30 (Some ''bob''))
     = reply 200 (JMe False None) \<and>
   snd (me (fst (logout (run demo_env init_state alice_session))) 31
          (apply_cookie (cookie (snd (logout (run demo_env init_state alice_session))))
             (Some ''alice'')))
     = reply 200 (JMe False None)"
proof -
  have a: "lru_has userTTL 30 ''alice'' (userCache (run demo_env init_state alice_session))"
    by (simp add: alice_session_state alice_logged_in_def lru_has_def isStale_def userTTL_def)
  have b: "\<not> (\<exists>n. Some ''bob'' = Some n \<and>
             lru_has userTTL 30 n (userCache (run demo_env init_state alice_session)))"
    by (simp add: alice_session_state alice_logged_in_def lru_has_def)
  show ?thesis
    using a b
      me_logged_in_iff [of demo_env alice_session 30 "Some ''alice''" "''alice''"
        "run demo_env init_state alice_session" 31]
      me_logged_in_iff [of demo_env alice_session 30 "Some ''bob''" "''bob''"
        "run demo_env init_state alice_session" 31]
    by simp
qed

subsection \<open>The challenge slot of a user\<close>

lemma distinct_lru_delete: "distinct (map fst c) \<Longrightarrow> distinct (map fst (lru_delete k c))"
  by (simp add: lru_delete_def distinct_map_filter)

lemma lru_delete_key: "k \<notin> fst ` set (lru_delete k c)"
  by (auto simp: lru_delete_def)

lemma distinct_lru_get: "distinct (map fst c) \<Longrightarrow> distinct (map fst (fst (lru_get ttl now k c)))"
  using lru_delete_key [of k c]
  by (auto simp: lru_get_def distinct_lru_delete split: option.splits)

lemma distinct_butlast_keys: "distinct (map fst c) \<Longrightarrow> distinct (map fst (butlast c))"
  by (simp add: map_butlast distinct_butlast)

lemma distinct_lru_set: "distinct (map fst c) \<Longrightarrow> distinct (map fst (lru_set m now k v c))"
  using lru_delete_key [of k c]
  by (auto simp: lru_set_def distinct_lru_delete distinct_butlast_keys map_of_eq_None_iff
      split: option.splits dest: in_set_butlastD)

lemma filter_lru_set: "filter (\<lambda>x. fst x = k) (lru_set m now k v c) = [(k, v, now)]"
proof -
  have a: "filter (\<lambda>x. fst x = k) (lru_delete k c) = []"
    by (auto simp: lru_delete_def filter_empty_conv)
  have b: "map_of c k = None \<Longrightarrow> filter (\<lambda>x. fst x = k) c = []"
    by (auto simp: filter_empty_conv map_of_eq_None_iff)
  have c: "map_of c k = None \<Longrightarrow> filter (\<lambda>x. fst x = k) (butlast c) = []"
    by (auto simp: filter_empty_conv map_of_eq_None_iff dest: in_set_butlastD)
  show ?thesis
    by (simp add: lru_set_def a b c split: option.splits)
qed

lemma distinct_challenges_register_options:
  "distinct (map fst (challengeCache s)) \<Longrightarrow>
   distinct (map fst (challengeCache (fst (register_options e s now uuid chal name))))"
proof (cases "name = []")
  case True
  then show "distinct (map fst (challengeCache s)) \<Longrightarrow> ?thesis"
    by (simp add: register_options_def)
next
  case False
  then show "distinct (map fst (challengeCache s)) \<Longrightarrow> ?thesis"
    by (simp add: register_options_eq distinct_lru_set split: option.splits)
qed

lemma distinct_challenges_login_options:
  "distinct (map fst (challengeCache s)) \<Longrightarrow>
   distinct (map fst (challengeCache (fst (login_options e s now chal name))))"
  by (simp add: login_options_eq distinct_lru_set split: option.splits)

lemma distinct_challenges_register_verify:
  assumes "distinct (map fst (challengeCache s))"
  shows "distinct (map fst (challengeCache (fst (register_verify e s now name resp))))"
proof (cases "lru_peek userTTL now name (userCache s)")
  case None
  then show ?thesis using assms by (simp add: register_verify_no_user)
next
  case (Some u)
  note get = distinct_lru_get [OF assms, of challengeTTL now "user_id u"]
  show ?thesis
  proof (cases "lru_peek challengeTTL now (user_id u) (challengeCache s) = None \<or>
                lru_peek challengeTTL now (user_id u) (challengeCache s) = Some []")
    case True
    then show ?thesis
      using get by (simp add: register_verify_no_challenge [OF Some])
  next
    case False
    then obtain ch where ch: "lru_peek challengeTTL now (user_id u) (challengeCache s) = Some ch"
      "ch \<noteq> []" by auto
    show ?thesis
      using get distinct_lru_delete [OF get, of "user_id u"]
      by (simp add: register_verify_live [OF Some ch] Let_def split: sum.splits option.splits)
  qed
qed

lemma distinct_challenges_login_verify:
  assumes "distinct (map fst (challengeCache s))"
  shows "distinct (map fst (challengeCache (fst (login_verify e s now name resp))))"
proof (cases "lru_peek userTTL now name (userCache s)")
  case None
  then show ?thesis using assms by (simp add: login_verify_no_user)
next
  case (Some u)
  note get = distinct_lru_get [OF assms, of challengeTTL now "user_id u"]
  show ?thesis
  proof (cases "lru_peek challengeTTL now (user_id u) (challengeCache s) = None \<or>
                lru_peek challengeTTL now (user_id u) (challengeCache s) = Some []")
    case True
    then show ?thesis
      using get by (simp add: login_verify_no_challenge [OF Some])
  next
    case False
    then obtain ch where ch: "lru_peek challengeTTL now (user_id u) (challengeCache s) = Some ch"
      "ch \<noteq> []" by auto
    show ?thesis
      using get distinct_lru_delete [OF get, of "user_id u"]
      by (simp add: login_verify_live [OF Some ch] Let_def split: sum.splits option.splits)
  qed
qed

lemma distinct_challenges_handle:
  assumes "distinct (map fst (challengeCache s))"
  shows "distinct (map fst (challengeCache (fst (handle e s now uuid chal r))))"
proof (cases r)
  case (PostRegisterOptions name)
  then show ?thesis using distinct_challenges_register_options [OF assms] by simp
next
  case (PostRegisterVerify name resp)
  then show ?thesis using distinct_challenges_register_verify [OF assms] by simp
next
  case (PostLoginOptions name)
  then show ?thesis using distinct_challenges_login_options [OF assms] by simp
next
  case (PostLoginVerify name resp)
  then show ?thesis using distinct_challenges_login_verify [OF assms] by simp
next
  case PostLogout
  then show ?thesis using assms by (simp add: logout_def)
next
  case (GetMe presented)
  then show ?thesis using assms by (simp add: me_def split: option.splits)
qed

lemma distinct_challenges_run:
  "distinct (map fst (challengeCache s)) \<Longrightarrow> distinct (map fst (challengeCache (run e s evs)))"
proof (induction evs arbitrary: s)
  case Nil
  then show ?case by simp
next
  case (Cons ev evs)
  obtain now uuid chal r where ev: "ev = (now, uuid, chal, r)" by (cases ev) auto
  show ?case
    unfolding ev run.simps
    by (rule Cons.IH) (rule distinct_challenges_handle [OF Cons.prems])
qed

lemma register_options_status:
  "status (snd (register_options e s now uuid chal name)) = 200 \<longleftrightarrow> name \<noteq> []"
proof (cases "name = []")
  case True
  then show ?thesis by (simp add: register_options_def reply_def)
next
  case False
  then show ?thesis by (simp add: register_options_eq reply_def split: option.splits)
qed

lemma login_options_status:
  "status (snd (login_options e s now chal name)) = 200 \<longleftrightarrow>
     lru_has userTTL now name (userCache s)"
  by (simp add: login_options_eq reply_def lru_has_peek split: option.splits)

lemma register_options_stored:
  assumes "name \<noteq> []"
  shows "\<exists>u. lru_peek userTTL now name
               (userCache (fst (register_options e s now uuid chal name))) = Some u \<and>
             filter (\<lambda>x. fst x = user_id u)
               (challengeCache (fst (register_options e s now uuid chal name)))
               = [(user_id u, chal, now)]"
  by (simp add: register_options_eq [OF assms] lru_peek_get lru_peek_set_same isStale_def
      filter_lru_set split: option.splits)

lemma login_options_stored:
  assumes "lru_has userTTL now name (userCache s)"
  shows "\<exists>u. lru_peek userTTL now name
               (userCache (fst (login_options e s now chal name))) = Some u \<and>
             filter (\<lambda>x. fst x = user_id u)
               (challengeCache (fst (login_options e s now chal name)))
               = [(user_id u, chal, now)]"
  using assms
  by (simp add: login_options_eq lru_has_peek lru_peek_get filter_lru_set split: option.splits)

lemma options_same_state:
  "lru_has userTTL now name (userCache s) \<Longrightarrow> name \<noteq> [] \<Longrightarrow>
   fst (register_options e s now uuid chal name) = fst (login_options e s now chal name)"
  by (auto simp: register_options_eq login_options_eq lru_has_peek split: option.splits)

text \<open>
  C8, as the code has it. In every reachable state the challenge cache holds at most one
  entry per user id. An options request that is answered 200 leaves exactly one entry under
  the user's id, holding the new challenge and the time of the request, whatever was
  pending before. The entry is the challenge string alone: for a user with a live entry,
  \<open>/register/options\<close> and \<open>/login/options\<close> with the same challenge leave the same
  state, so nothing stored tells a registration challenge from an authentication one.
\<close>

theorem one_challenge_per_user:
  "distinct (map fst (challengeCache (run e init_state evs))) \<and>
   (status (snd (register_options e s now uuid chal name)) = 200 \<longrightarrow>
      (\<exists>u. lru_peek userTTL now name
               (userCache (fst (register_options e s now uuid chal name))) = Some u \<and>
            filter (\<lambda>x. fst x = user_id u)
               (challengeCache (fst (register_options e s now uuid chal name)))
               = [(user_id u, chal, now)])) \<and>
   (status (snd (login_options e s now chal name)) = 200 \<longrightarrow>
      (\<exists>u. lru_peek userTTL now name
               (userCache (fst (login_options e s now chal name))) = Some u \<and>
            filter (\<lambda>x. fst x = user_id u)
               (challengeCache (fst (login_options e s now chal name)))
               = [(user_id u, chal, now)])) \<and>
   (lru_has userTTL now name (userCache s) \<and> name \<noteq> [] \<longrightarrow>
      fst (register_options e s now uuid chal name) = fst (login_options e s now chal name))"
proof -
  have "distinct (map fst (challengeCache (run e init_state evs)))"
    by (rule distinct_challenges_run) (simp add: init_state_def)
  then show ?thesis
    using register_options_stored [of name now e s uuid chal]
      login_options_stored [of now name s e chal]
      options_same_state [of now name s e uuid chal]
    by (simp add: register_options_status login_options_status)
qed

theorem one_challenge_per_user_witness:
  "distinct (map fst (challengeCache (run demo_env init_state alice_session))) \<and>
   status (snd (register_options demo_env alice_login_pending 22 ''u9'' ''c9'' ''alice'')) = 200 \<and>
   challengeCache (fst (register_options demo_env alice_login_pending 22 ''u9'' ''c9'' ''alice''))
     = [(''u1'', ''c9'', 22)] \<and>
   status (snd (login_options demo_env alice_login_pending 22 ''c9'' ''alice'')) = 200 \<and>
   lru_has userTTL 22 ''alice'' (userCache alice_login_pending) \<and>
   fst (register_options demo_env alice_login_pending 22 ''u9'' ''c9'' ''alice'')
     = fst (login_options demo_env alice_login_pending 22 ''c9'' ''alice'')"
proof -
  have a: "status (snd (register_options demo_env alice_login_pending 22 ''u9'' ''c9'' ''alice''))
             = 200"
    by (simp add: example_defs route_defs)
  have b: "status (snd (login_options demo_env alice_login_pending 22 ''c9'' ''alice'')) = 200"
    by (simp add: example_defs route_defs)
  have c: "lru_has userTTL 22 ''alice'' (userCache alice_login_pending)"
    by (simp add: example_defs lru_has_def isStale_def userTTL_def)
  have d: "challengeCache
             (fst (register_options demo_env alice_login_pending 22 ''u9'' ''c9'' ''alice''))
           = [(''u1'', ''c9'', 22)]"
    by (simp add: example_defs route_defs)
  show ?thesis
    using a b c d
      one_challenge_per_user [of demo_env alice_session alice_login_pending 22 "''u9''"
        "''c9''" "''alice''"]
    by simp
qed

text \<open>
  The specification has each stored challenge carry its purpose; the code stores none: the
  state after a registration options request for Alice equals the state after an
  authentication options request, and the entry stored is the id, the challenge and the
  time.
\<close>

theorem challenge_has_no_purpose:
  "fst (register_options demo_env alice_registered 20 ''u9'' ''c3'' ''alice'')
     = fst (login_options demo_env alice_registered 20 ''c3'' ''alice'') \<and>
   challengeCache (fst (register_options demo_env alice_registered 20 ''u9'' ''c3'' ''alice''))
     = [(''u1'', ''c3'', 20)]"
  by (simp add: example_defs route_defs)

subsection \<open>When a challenge is consumed\<close>

lemma verified_state_register:
  assumes "body (snd (register_verify e s now name resp)) = JVerified True"
  shows "\<exists>u' c cc. fst (register_verify e s now name resp) =
           \<lparr>userCache = lru_set userMax now name u' c,
            challengeCache = lru_delete (user_id u') cc\<rparr>"
    (is "\<exists>u' c cc. ?P u' c cc")
proof (cases "lru_peek userTTL now name (userCache s)")
  case None
  with assms show ?thesis by (simp add: register_verify_no_user reply_def)
next
  case (Some u)
  show ?thesis
  proof (cases "lru_peek challengeTTL now (user_id u) (challengeCache s) = None \<or>
                lru_peek challengeTTL now (user_id u) (challengeCache s) = Some []")
    case True
    with assms show ?thesis by (simp add: register_verify_no_challenge [OF Some] reply_def)
  next
    case False
    then obtain ch where ch: "lru_peek challengeTTL now (user_id u) (challengeCache s) = Some ch"
      "ch \<noteq> []" by auto
    let ?c = "fst (lru_get userTTL now name (userCache s))"
    let ?cc = "fst (lru_get challengeTTL now (user_id u) (challengeCache s))"
    from assms obtain ds where
      "fst (register_verify e s now name resp) =
         \<lparr>userCache = lru_set userMax now name (u\<lparr>devices := ds\<rparr>) ?c,
          challengeCache = lru_delete (user_id u) ?cc\<rparr>"
      by (auto simp: register_verify_live [OF Some ch] Let_def reply_def
          split: sum.splits option.splits if_splits)
    then have "?P (u\<lparr>devices := ds\<rparr>) ?c ?cc" by simp
    then show ?thesis by blast
  qed
qed

lemma verified_state_login:
  assumes "body (snd (login_verify e s now name resp)) = JVerified True"
  shows "\<exists>u' c cc. fst (login_verify e s now name resp) =
           \<lparr>userCache = lru_set userMax now name u' c,
            challengeCache = lru_delete (user_id u') cc\<rparr>"
    (is "\<exists>u' c cc. ?P u' c cc")
proof (cases "lru_peek userTTL now name (userCache s)")
  case None
  with assms show ?thesis by (simp add: login_verify_no_user reply_def)
next
  case (Some u)
  show ?thesis
  proof (cases "lru_peek challengeTTL now (user_id u) (challengeCache s) = None \<or>
                lru_peek challengeTTL now (user_id u) (challengeCache s) = Some []")
    case True
    with assms show ?thesis by (simp add: login_verify_no_challenge [OF Some] reply_def)
  next
    case False
    then obtain ch where ch: "lru_peek challengeTTL now (user_id u) (challengeCache s) = Some ch"
      "ch \<noteq> []" by auto
    let ?c = "fst (lru_get userTTL now name (userCache s))"
    let ?cc = "fst (lru_get challengeTTL now (user_id u) (challengeCache s))"
    from assms obtain ds where
      "fst (login_verify e s now name resp) =
         \<lparr>userCache = lru_set userMax now name (u\<lparr>devices := ds\<rparr>) ?c,
          challengeCache = lru_delete (user_id u) ?cc\<rparr>"
      by (auto simp: login_verify_live [OF Some ch] Let_def reply_def
          split: sum.splits option.splits if_splits)
    then have "?P (u\<lparr>devices := ds\<rparr>) ?c ?cc" by simp
    then show ?thesis by blast
  qed
qed

lemma verify_after_consumption:
  fixes u' :: user
  defines "s' \<equiv> \<lambda>now name c cc. \<lparr>userCache = lru_set userMax now name u' c,
                                   challengeCache = lru_delete (user_id u') cc\<rparr>"
  shows "snd (register_verify e (s' now name c cc) now' name resp) =
           reply 400 (JError (if isStale userTTL now' now then ''User not found''
                              else ''Challenge expired or not found''))"
    and "snd (login_verify e (s' now name c cc) now' name resp) =
           reply 400 (JError (if isStale userTTL now' now then ''User not found''
                              else ''Challenge expired or not found''))"
proof -
  have u: "lru_peek userTTL now' name (userCache (s' now name c cc)) =
             (if isStale userTTL now' now then None else Some u')"
    by (simp add: s'_def lru_peek_set_same)
  have ch: "lru_peek challengeTTL now' (user_id u') (challengeCache (s' now name c cc)) = None"
    by (simp add: s'_def lru_peek_delete_same)
  show "snd (register_verify e (s' now name c cc) now' name resp) =
           reply 400 (JError (if isStale userTTL now' now then ''User not found''
                              else ''Challenge expired or not found''))"
  proof (cases "isStale userTTL now' now")
    case True
    with u show ?thesis by (simp add: register_verify_no_user)
  next
    case False
    with u have "lru_peek userTTL now' name (userCache (s' now name c cc)) = Some u'" by simp
    from register_verify_no_challenge [OF this disjI1 [OF ch]] False
    show ?thesis by simp
  qed
  show "snd (login_verify e (s' now name c cc) now' name resp) =
           reply 400 (JError (if isStale userTTL now' now then ''User not found''
                              else ''Challenge expired or not found''))"
  proof (cases "isStale userTTL now' now")
    case True
    with u show ?thesis by (simp add: login_verify_no_user)
  next
    case False
    with u have "lru_peek userTTL now' name (userCache (s' now name c cc)) = Some u'" by simp
    from login_verify_no_challenge [OF this disjI1 [OF ch]] False
    show ?thesis by simp
  qed
qed

lemma challenge_kept_register:
  assumes "lru_peek userTTL now name (userCache s) = Some u"
    and "lru_peek challengeTTL now (user_id u) (challengeCache s) = Some ch"
    and "body (snd (register_verify e s now name resp)) \<noteq> JVerified True"
  shows "lru_peek challengeTTL now (user_id u)
           (challengeCache (fst (register_verify e s now name resp))) = Some ch"
proof (cases "ch = []")
  case True
  with assms(2) show ?thesis
    by (simp add: register_verify_no_challenge [OF assms(1)] lru_peek_get)
next
  case False
  show ?thesis
    using assms(2,3)
    by (simp add: register_verify_live [OF assms(1,2) False] Let_def reply_def lru_peek_get
        split: sum.splits option.splits if_splits)
qed

lemma challenge_kept_login:
  assumes "lru_peek userTTL now name (userCache s) = Some u"
    and "lru_peek challengeTTL now (user_id u) (challengeCache s) = Some ch"
    and "body (snd (login_verify e s now name resp)) \<noteq> JVerified True"
  shows "lru_peek challengeTTL now (user_id u)
           (challengeCache (fst (login_verify e s now name resp))) = Some ch"
proof (cases "ch = []")
  case True
  with assms(2) show ?thesis
    by (simp add: login_verify_no_challenge [OF assms(1)] lru_peek_get)
next
  case False
  show ?thesis
    using assms(2,3)
    by (simp add: login_verify_live [OF assms(1,2) False] Let_def reply_def lru_peek_get
        split: sum.splits option.splits if_splits)
qed

text \<open>
  C1, as the code has it. A verify request that is answered \<open>verified: true\<close> deletes the
  user's challenge: whatever verify request for that user comes next, at whatever time and
  with whatever response, is not answered \<open>verified: true\<close>, and while the user's entry is
  live (within \<open>userTTL\<close> of the first request) it is answered 400 "Challenge expired or
  not found". So two verify requests in a row give \<open>verified: true\<close> at most once. A
  verify request that is not answered \<open>verified: true\<close> leaves a live challenge in place.
\<close>

theorem challenge_consumed_by_success_only:
  "(body (snd (register_verify e s now name resp)) = JVerified True \<longrightarrow>
      body (snd (register_verify e (fst (register_verify e s now name resp)) now' name resp'))
        \<noteq> JVerified True \<and>
      body (snd (login_verify e (fst (register_verify e s now name resp)) now' name resp'))
        \<noteq> JVerified True \<and>
      (now' \<le> now + userTTL \<longrightarrow>
         snd (register_verify e (fst (register_verify e s now name resp)) now' name resp')
           = reply 400 (JError ''Challenge expired or not found'') \<and>
         snd (login_verify e (fst (register_verify e s now name resp)) now' name resp')
           = reply 400 (JError ''Challenge expired or not found''))) \<and>
   (body (snd (login_verify e s now name resp)) = JVerified True \<longrightarrow>
      body (snd (login_verify e (fst (login_verify e s now name resp)) now' name resp'))
        \<noteq> JVerified True \<and>
      body (snd (register_verify e (fst (login_verify e s now name resp)) now' name resp'))
        \<noteq> JVerified True \<and>
      (now' \<le> now + userTTL \<longrightarrow>
         snd (login_verify e (fst (login_verify e s now name resp)) now' name resp')
           = reply 400 (JError ''Challenge expired or not found'') \<and>
         snd (register_verify e (fst (login_verify e s now name resp)) now' name resp')
           = reply 400 (JError ''Challenge expired or not found''))) \<and>
   (lru_peek userTTL now name (userCache s) = Some u \<and>
    lru_peek challengeTTL now (user_id u) (challengeCache s) = Some ch \<longrightarrow>
      (body (snd (register_verify e s now name resp)) \<noteq> JVerified True \<longrightarrow>
         lru_peek challengeTTL now (user_id u)
           (challengeCache (fst (register_verify e s now name resp))) = Some ch) \<and>
      (body (snd (login_verify e s now name resp)) \<noteq> JVerified True \<longrightarrow>
         lru_peek challengeTTL now (user_id u)
           (challengeCache (fst (login_verify e s now name resp))) = Some ch))"
proof (intro conjI impI)
  assume "body (snd (register_verify e s now name resp)) = JVerified True"
  then obtain u' c cc where s': "fst (register_verify e s now name resp) =
      \<lparr>userCache = lru_set userMax now name u' c, challengeCache = lru_delete (user_id u') cc\<rparr>"
    using verified_state_register by blast
  show "body (snd (register_verify e (fst (register_verify e s now name resp)) now' name resp'))
          \<noteq> JVerified True"
    by (simp add: s' verify_after_consumption reply_def)
  show "body (snd (login_verify e (fst (register_verify e s now name resp)) now' name resp'))
          \<noteq> JVerified True"
    by (simp add: s' verify_after_consumption reply_def)
  assume "now' \<le> now + userTTL"
  then have live: "\<not> isStale userTTL now' now" by (simp add: isStale_def)
  show "snd (register_verify e (fst (register_verify e s now name resp)) now' name resp')
          = reply 400 (JError ''Challenge expired or not found'')"
    by (simp add: s' verify_after_consumption live)
  show "snd (login_verify e (fst (register_verify e s now name resp)) now' name resp')
          = reply 400 (JError ''Challenge expired or not found'')"
    by (simp add: s' verify_after_consumption live)
next
  assume "body (snd (login_verify e s now name resp)) = JVerified True"
  then obtain u' c cc where s': "fst (login_verify e s now name resp) =
      \<lparr>userCache = lru_set userMax now name u' c, challengeCache = lru_delete (user_id u') cc\<rparr>"
    using verified_state_login by blast
  show "body (snd (login_verify e (fst (login_verify e s now name resp)) now' name resp'))
          \<noteq> JVerified True"
    by (simp add: s' verify_after_consumption reply_def)
  show "body (snd (register_verify e (fst (login_verify e s now name resp)) now' name resp'))
          \<noteq> JVerified True"
    by (simp add: s' verify_after_consumption reply_def)
  assume "now' \<le> now + userTTL"
  then have live: "\<not> isStale userTTL now' now" by (simp add: isStale_def)
  show "snd (login_verify e (fst (login_verify e s now name resp)) now' name resp')
          = reply 400 (JError ''Challenge expired or not found'')"
    by (simp add: s' verify_after_consumption live)
  show "snd (register_verify e (fst (login_verify e s now name resp)) now' name resp')
          = reply 400 (JError ''Challenge expired or not found'')"
    by (simp add: s' verify_after_consumption live)
next
  assume a: "lru_peek userTTL now name (userCache s) = Some u \<and>
             lru_peek challengeTTL now (user_id u) (challengeCache s) = Some ch"
  assume "body (snd (register_verify e s now name resp)) \<noteq> JVerified True"
  with a show "lru_peek challengeTTL now (user_id u)
           (challengeCache (fst (register_verify e s now name resp))) = Some ch"
    by (simp add: challenge_kept_register)
next
  assume a: "lru_peek userTTL now name (userCache s) = Some u \<and>
             lru_peek challengeTTL now (user_id u) (challengeCache s) = Some ch"
  assume "body (snd (login_verify e s now name resp)) \<noteq> JVerified True"
  with a show "lru_peek challengeTTL now (user_id u)
           (challengeCache (fst (login_verify e s now name resp))) = Some ch"
    by (simp add: challenge_kept_login)
qed


theorem challenge_consumed_by_success_only_witness:
  "body (snd (register_verify demo_env alice_pending 11 ''alice'' (answer ''cred-1'' ''c1'')))
     = JVerified True \<and>
   (12::nat) \<le> 11 + userTTL \<and>
   snd (register_verify demo_env
          (fst (register_verify demo_env alice_pending 11 ''alice'' (answer ''cred-1'' ''c1'')))
          12 ''alice'' (answer ''cred-1'' ''c1''))
     = reply 400 (JError ''Challenge expired or not found'') \<and>
   body (snd (login_verify demo_env alice_login_pending 21 ''alice'' (answer ''cred-1'' ''c3'')))
     = JVerified True \<and>
   (22::nat) \<le> 21 + userTTL \<and>
   snd (login_verify demo_env
          (fst (login_verify demo_env alice_login_pending 21 ''alice'' (answer ''cred-1'' ''c3'')))
          22 ''alice'' (answer ''cred-1'' ''c3''))
     = reply 400 (JError ''Challenge expired or not found'') \<and>
   lru_peek userTTL 11 ''alice'' (userCache alice_pending) = Some alice_new \<and>
   lru_peek challengeTTL 11 (user_id alice_new) (challengeCache alice_pending) = Some ''c1'' \<and>
   body (snd (register_verify rejecting_env alice_pending 11 ''alice'' (answer ''cred-1'' ''c1'')))
     \<noteq> JVerified True \<and>
   body (snd (login_verify rejecting_env alice_pending 11 ''alice'' (answer ''cred-1'' ''c1'')))
     \<noteq> JVerified True \<and>
   lru_peek challengeTTL 11 (user_id alice_new)
     (challengeCache (fst (register_verify rejecting_env alice_pending 11 ''alice''
        (answer ''cred-1'' ''c1'')))) = Some ''c1'' \<and>
   lru_peek challengeTTL 11 (user_id alice_new)
     (challengeCache (fst (login_verify rejecting_env alice_pending 11 ''alice''
        (answer ''cred-1'' ''c1'')))) = Some ''c1''"
proof -
  have r: "body (snd (register_verify demo_env alice_pending 11 ''alice''
             (answer ''cred-1'' ''c1''))) = JVerified True"
    by (simp add: alice_session_step2 reply_def)
  have l: "body (snd (login_verify demo_env alice_login_pending 21 ''alice''
             (answer ''cred-1'' ''c3''))) = JVerified True"
    by (simp add: alice_session_step4)
  have t: "(12::nat) \<le> 11 + userTTL" "(22::nat) \<le> 21 + userTTL"
    by (simp_all add: userTTL_def)
  have u: "lru_peek userTTL 11 ''alice'' (userCache alice_pending) = Some alice_new"
    by (simp add: example_defs lru_peek_def isStale_def userTTL_def)
  have ch: "lru_peek challengeTTL 11 (user_id alice_new) (challengeCache alice_pending)
              = Some ''c1''"
    by (simp add: example_defs lru_peek_def isStale_def challengeTTL_def)
  have f: "body (snd (register_verify rejecting_env alice_pending 11 ''alice''
             (answer ''cred-1'' ''c1''))) \<noteq> JVerified True"
    by (simp add: example_defs rejecting_env_def route_defs)
  have g: "body (snd (login_verify rejecting_env alice_pending 11 ''alice''
             (answer ''cred-1'' ''c1''))) \<noteq> JVerified True"
    by (simp add: example_defs rejecting_env_def route_defs)
  show ?thesis
    using r l t u ch f g
      challenge_consumed_by_success_only [of demo_env alice_pending 11 "''alice''"
        "answer ''cred-1'' ''c1''" 12 "answer ''cred-1'' ''c1''"]
      challenge_consumed_by_success_only [of demo_env alice_login_pending 21 "''alice''"
        "answer ''cred-1'' ''c3''" 22 "answer ''cred-1'' ''c3''"]
      challenge_consumed_by_success_only [of rejecting_env alice_pending 11 "''alice''"
        "answer ''cred-1'' ''c1''" 12 "answer ''cred-1'' ''c1''" alice_new "''c1''"]
    by simp
qed

text \<open>
  The specification has a failed attempt consume the challenge; the code keeps it. With a
  verifier that reports not verified, Alice's challenge is still stored after the first
  attempt, and the second attempt with the same response is answered \<open>verified: false\<close>,
  not "Challenge expired or not found". With the demo verifier, a wrong answer is rejected
  and the right answer to the same challenge is then accepted.
\<close>

lemma rejected_attempt_state:
  "register_verify rejecting_env alice_pending 11 ''alice'' (answer ''cred-1'' ''c1'')
     = (alice_pending, reply 400 (JVerified False))"
  by (simp add: example_defs rejecting_env_def route_defs)

lemma rejected_second_attempt:
  "register_verify rejecting_env alice_pending 12 ''alice'' (answer ''cred-1'' ''c1'')
     = (alice_pending, reply 400 (JVerified False))"
  by (simp add: example_defs rejecting_env_def route_defs)

lemma wrong_answer_state:
  "register_verify demo_env alice_pending 11 ''alice'' (answer ''cred-1'' ''c0'')
     = (alice_pending, reply 400 (JError ''Unexpected registration response challenge''))"
  by (simp add: example_defs route_defs)

lemma right_answer_later:
  "snd (register_verify demo_env alice_pending 12 ''alice'' (answer ''cred-1'' ''c1''))
     = reply 200 (JVerified True)"
  by (simp add: example_defs route_defs)

theorem failed_attempt_keeps_challenge:
  "snd (register_verify rejecting_env alice_pending 11 ''alice'' (answer ''cred-1'' ''c1''))
     = reply 400 (JVerified False) \<and>
   challengeCache (fst (register_verify rejecting_env alice_pending 11 ''alice''
      (answer ''cred-1'' ''c1''))) = [(''u1'', ''c1'', 10)] \<and>
   snd (register_verify rejecting_env
          (fst (register_verify rejecting_env alice_pending 11 ''alice''
             (answer ''cred-1'' ''c1'')))
          12 ''alice'' (answer ''cred-1'' ''c1''))
     = reply 400 (JVerified False) \<and>
   snd (register_verify demo_env alice_pending 11 ''alice'' (answer ''cred-1'' ''c0''))
     = reply 400 (JError ''Unexpected registration response challenge'') \<and>
   snd (register_verify demo_env
          (fst (register_verify demo_env alice_pending 11 ''alice'' (answer ''cred-1'' ''c0'')))
          12 ''alice'' (answer ''cred-1'' ''c1''))
     = reply 200 (JVerified True)"
  by (simp add: rejected_attempt_state rejected_second_attempt wrong_answer_state
      right_answer_later) (simp add: alice_pending_def)

subsection \<open>A result that is not verified\<close>

lemma map_of_lru_get_live:
  "lru_peek ttl now k c = Some v \<Longrightarrow> map_of (fst (lru_get ttl now k c)) = map_of c"
  by (rule ext) (simp add: map_of_lru_get)

text \<open>
  C6. For a user with a live entry and a live challenge: when the authentication verifier
  returns a result with \<open>verified = false\<close>, \<open>/login/verify\<close> answers 400
  \<open>{verified: false}\<close>, sets no cookie, and both caches hold the same entries as before
  (same keys, values and ages; the lookups only touch the order of use). The same holds
  for \<open>/register/verify\<close> when the registration verifier returns \<open>verified = false\<close>.
\<close>

theorem not_verified_changes_nothing:
  assumes "lru_peek userTTL now name (userCache s) = Some u"
    and "lru_peek challengeTTL now (user_id u) (challengeCache s) = Some ch"
    and "ch \<noteq> []"
  shows "(find (\<lambda>d. credentialID d = response_id resp) (devices u) = Some d \<and>
          verifyAuthenticationResponse e
            \<lparr>response = resp, expectedChallenge = ch, expectedOrigin = origin e,
             expectedRPID = rpID e, credential = d\<rparr> = Inr av \<and>
          \<not> verified_auth av \<longrightarrow>
            snd (login_verify e s now name resp) = reply 400 (JVerified False) \<and>
            map_of (userCache (fst (login_verify e s now name resp))) = map_of (userCache s) \<and>
            map_of (challengeCache (fst (login_verify e s now name resp)))
              = map_of (challengeCache s)) \<and>
         (verifyRegistrationResponse e
            \<lparr>response = resp, expectedChallenge = ch, expectedOrigin = origin e,
             expectedRPID = rpID e\<rparr> = Inr rv \<and>
          \<not> verified rv \<longrightarrow>
            snd (register_verify e s now name resp) = reply 400 (JVerified False) \<and>
            map_of (userCache (fst (register_verify e s now name resp))) = map_of (userCache s) \<and>
            map_of (challengeCache (fst (register_verify e s now name resp)))
              = map_of (challengeCache s))"
  using map_of_lru_get_live [OF assms(1)] map_of_lru_get_live [OF assms(2)]
  by (simp add: login_verify_live [OF assms] register_verify_live [OF assms] Let_def
      split: option.splits)

theorem not_verified_changes_nothing_witness:
  "lru_peek userTTL 21 ''alice'' (userCache alice_login_pending) = Some alice \<and>
   lru_peek challengeTTL 21 (user_id alice) (challengeCache alice_login_pending) = Some ''c3'' \<and>
   find (\<lambda>d. credentialID d = response_id (answer ''cred-1'' ''c3'')) (devices alice)
     = Some (hd (devices alice)) \<and>
   login_verify rejecting_env alice_login_pending 21 ''alice'' (answer ''cred-1'' ''c3'')
     = (alice_login_pending, reply 400 (JVerified False)) \<and>
   register_verify rejecting_env alice_login_pending 21 ''alice'' (answer ''cred-1'' ''c3'')
     = (alice_login_pending, reply 400 (JVerified False))"
proof -
  have u: "lru_peek userTTL 21 ''alice'' (userCache alice_login_pending) = Some alice"
    by (simp add: example_defs lru_peek_def isStale_def userTTL_def)
  have ch: "lru_peek challengeTTL 21 (user_id alice) (challengeCache alice_login_pending)
              = Some ''c3''"
    by (simp add: example_defs lru_peek_def isStale_def challengeTTL_def)
  have ne: "''c3'' \<noteq> []" by simp
  have d: "find (\<lambda>d. credentialID d = response_id (answer ''cred-1'' ''c3'')) (devices alice)
             = Some (hd (devices alice))"
    by (simp add: example_defs)
  have l: "fst (login_verify rejecting_env alice_login_pending 21 ''alice''
             (answer ''cred-1'' ''c3'')) = alice_login_pending"
    by (simp add: example_defs rejecting_env_def route_defs)
  have r: "fst (register_verify rejecting_env alice_login_pending 21 ''alice''
             (answer ''cred-1'' ''c3'')) = alice_login_pending"
    by (simp add: example_defs rejecting_env_def route_defs)
  have v: "verifyAuthenticationResponse rejecting_env opts
             = Inr \<lparr>verified_auth = False, newCounter = 0\<rparr>" for opts
    by (simp add: rejecting_env_def)
  have w: "verifyRegistrationResponse rejecting_env opts
             = Inr \<lparr>verified = False, registrationInfo = None\<rparr>" for opts
    by (simp add: rejecting_env_def)
  show ?thesis
    using u ch d l r
      not_verified_changes_nothing [OF u ch ne, of "answer ''cred-1'' ''c3''"
        "hd (devices alice)" rejecting_env "\<lparr>verified_auth = False, newCounter = 0\<rparr>"
        "\<lparr>verified = False, registrationInfo = None\<rparr>"]
    by (simp add: v w prod_eq_iff)
qed

subsection \<open>A verifier that throws\<close>

text \<open>
  C9, as the code has it. For a user with a live entry and a live challenge: when the
  verifier throws, both verify routes answer 400 with \<open>{error: message}\<close>, the message of
  the verifier's error. Two runs that differ only in the verifier's error get the same
  response exactly when the two messages are the same. The answer is the fixed 400
  \<open>{verified: false}\<close> exactly when the verifier returns, without throwing, a result
  that is not verified or, at registration, a result without \<open>registrationInfo\<close>.
\<close>

theorem verifier_error_message_returned:
  assumes "lru_peek userTTL now name (userCache s) = Some u"
    and "lru_peek challengeTTL now (user_id u) (challengeCache s) = Some ch"
    and "ch \<noteq> []"
  shows "(verifyRegistrationResponse e
            \<lparr>response = resp, expectedChallenge = ch, expectedOrigin = origin e,
             expectedRPID = rpID e\<rparr> = Inl msg \<longrightarrow>
            snd (register_verify e s now name resp) = reply 400 (JError msg)) \<and>
         (find (\<lambda>d. credentialID d = response_id resp) (devices u) = Some d \<and>
          verifyAuthenticationResponse e
            \<lparr>response = resp, expectedChallenge = ch, expectedOrigin = origin e,
             expectedRPID = rpID e, credential = d\<rparr> = Inl msg \<longrightarrow>
            snd (login_verify e s now name resp) = reply 400 (JError msg)) \<and>
         (verifyRegistrationResponse e
            \<lparr>response = resp, expectedChallenge = ch, expectedOrigin = origin e,
             expectedRPID = rpID e\<rparr> = Inl msg \<and>
          verifyRegistrationResponse e'
            \<lparr>response = resp, expectedChallenge = ch, expectedOrigin = origin e',
             expectedRPID = rpID e'\<rparr> = Inl msg' \<longrightarrow>
            (snd (register_verify e s now name resp) = snd (register_verify e' s now name resp)
               \<longleftrightarrow> msg = msg')) \<and>
         (find (\<lambda>d. credentialID d = response_id resp) (devices u) = Some d \<and>
          verifyAuthenticationResponse e
            \<lparr>response = resp, expectedChallenge = ch, expectedOrigin = origin e,
             expectedRPID = rpID e, credential = d\<rparr> = Inl msg \<and>
          verifyAuthenticationResponse e'
            \<lparr>response = resp, expectedChallenge = ch, expectedOrigin = origin e',
             expectedRPID = rpID e', credential = d\<rparr> = Inl msg' \<longrightarrow>
            (snd (login_verify e s now name resp) = snd (login_verify e' s now name resp)
               \<longleftrightarrow> msg = msg')) \<and>
         (snd (register_verify e s now name resp) = reply 400 (JVerified False) \<longleftrightarrow>
            (\<exists>rv. verifyRegistrationResponse e
                    \<lparr>response = resp, expectedChallenge = ch, expectedOrigin = origin e,
                     expectedRPID = rpID e\<rparr> = Inr rv \<and>
                  (\<not> verified rv \<or> registrationInfo rv = None))) \<and>
         (find (\<lambda>d. credentialID d = response_id resp) (devices u) = Some d \<longrightarrow>
            (snd (login_verify e s now name resp) = reply 400 (JVerified False) \<longleftrightarrow>
               (\<exists>av. verifyAuthenticationResponse e
                       \<lparr>response = resp, expectedChallenge = ch, expectedOrigin = origin e,
                        expectedRPID = rpID e, credential = d\<rparr> = Inr av \<and>
                     \<not> verified_auth av)))"
proof -
  have reg: "snd (register_verify e s now name resp) = reply 400 (JVerified False) \<longleftrightarrow>
            (\<exists>rv. verifyRegistrationResponse e
                    \<lparr>response = resp, expectedChallenge = ch, expectedOrigin = origin e,
                     expectedRPID = rpID e\<rparr> = Inr rv \<and>
                  (\<not> verified rv \<or> registrationInfo rv = None))"
    by (auto simp: register_verify_live [OF assms] Let_def reply_def
        split: sum.splits option.splits)
  have login: "find (\<lambda>d. credentialID d = response_id resp) (devices u) = Some d \<Longrightarrow>
            (snd (login_verify e s now name resp) = reply 400 (JVerified False) \<longleftrightarrow>
               (\<exists>av. verifyAuthenticationResponse e
                       \<lparr>response = resp, expectedChallenge = ch, expectedOrigin = origin e,
                        expectedRPID = rpID e, credential = d\<rparr> = Inr av \<and>
                     \<not> verified_auth av))"
    by (auto simp: login_verify_live [OF assms] Let_def reply_def split: sum.splits)
  have thrown: "(verifyRegistrationResponse e
            \<lparr>response = resp, expectedChallenge = ch, expectedOrigin = origin e,
             expectedRPID = rpID e\<rparr> = Inl msg \<longrightarrow>
            snd (register_verify e s now name resp) = reply 400 (JError msg)) \<and>
         (find (\<lambda>d. credentialID d = response_id resp) (devices u) = Some d \<and>
          verifyAuthenticationResponse e
            \<lparr>response = resp, expectedChallenge = ch, expectedOrigin = origin e,
             expectedRPID = rpID e, credential = d\<rparr> = Inl msg \<longrightarrow>
            snd (login_verify e s now name resp) = reply 400 (JError msg)) \<and>
         (verifyRegistrationResponse e
            \<lparr>response = resp, expectedChallenge = ch, expectedOrigin = origin e,
             expectedRPID = rpID e\<rparr> = Inl msg \<and>
          verifyRegistrationResponse e'
            \<lparr>response = resp, expectedChallenge = ch, expectedOrigin = origin e',
             expectedRPID = rpID e'\<rparr> = Inl msg' \<longrightarrow>
            (snd (register_verify e s now name resp) = snd (register_verify e' s now name resp)
               \<longleftrightarrow> msg = msg')) \<and>
         (find (\<lambda>d. credentialID d = response_id resp) (devices u) = Some d \<and>
          verifyAuthenticationResponse e
            \<lparr>response = resp, expectedChallenge = ch, expectedOrigin = origin e,
             expectedRPID = rpID e, credential = d\<rparr> = Inl msg \<and>
          verifyAuthenticationResponse e'
            \<lparr>response = resp, expectedChallenge = ch, expectedOrigin = origin e',
             expectedRPID = rpID e', credential = d\<rparr> = Inl msg' \<longrightarrow>
            (snd (login_verify e s now name resp) = snd (login_verify e' s now name resp)
               \<longleftrightarrow> msg = msg'))"
    by (simp add: login_verify_live [OF assms] register_verify_live [OF assms] Let_def reply_def)
  show ?thesis
    using reg login thrown by blast
qed

theorem verifier_error_message_returned_witness:
  "lru_peek userTTL 21 ''alice'' (userCache alice_login_pending) = Some alice \<and>
   lru_peek challengeTTL 21 (user_id alice) (challengeCache alice_login_pending) = Some ''c3'' \<and>
   find (\<lambda>d. credentialID d = response_id (answer ''cred-1'' ''c3'')) (devices alice)
     = Some (hd (devices alice)) \<and>
   snd (register_verify (failing_env ''bad origin'') alice_login_pending 21 ''alice''
          (answer ''cred-1'' ''c3'')) = reply 400 (JError ''bad origin'') \<and>
   snd (login_verify (failing_env ''bad origin'') alice_login_pending 21 ''alice''
          (answer ''cred-1'' ''c3'')) = reply 400 (JError ''bad origin'') \<and>
   snd (login_verify (failing_env ''bad origin'') alice_login_pending 21 ''alice''
          (answer ''cred-1'' ''c3''))
     \<noteq> snd (login_verify (failing_env ''bad signature'') alice_login_pending 21 ''alice''
          (answer ''cred-1'' ''c3'')) \<and>
   snd (register_verify rejecting_env alice_login_pending 21 ''alice''
          (answer ''cred-1'' ''c3'')) = reply 400 (JVerified False) \<and>
   snd (register_verify no_info_env alice_login_pending 21 ''alice''
          (answer ''cred-1'' ''c3'')) = reply 400 (JVerified False) \<and>
   snd (login_verify rejecting_env alice_login_pending 21 ''alice''
          (answer ''cred-1'' ''c3'')) = reply 400 (JVerified False) \<and>
   snd (register_verify (failing_env ''bad origin'') alice_login_pending 21 ''alice''
          (answer ''cred-1'' ''c3'')) \<noteq> reply 400 (JVerified False)"
proof -
  have u: "lru_peek userTTL 21 ''alice'' (userCache alice_login_pending) = Some alice"
    by (simp add: example_defs lru_peek_def isStale_def userTTL_def)
  have ch: "lru_peek challengeTTL 21 (user_id alice) (challengeCache alice_login_pending)
              = Some ''c3''"
    by (simp add: example_defs lru_peek_def isStale_def challengeTTL_def)
  have ne: "''c3'' \<noteq> []" by simp
  have d: "find (\<lambda>d. credentialID d = response_id (answer ''cred-1'' ''c3'')) (devices alice)
             = Some (hd (devices alice))"
    by (simp add: example_defs)
  have v: "verifyAuthenticationResponse (failing_env m) opts = Inl m" for m opts
    by (simp add: failing_env_def)
  have w: "verifyRegistrationResponse (failing_env m) opts = Inl m" for m opts
    by (simp add: failing_env_def)
  have rj: "verifyAuthenticationResponse rejecting_env aopts
              = Inr \<lparr>verified_auth = False, newCounter = 0\<rparr>"
    "verifyRegistrationResponse rejecting_env ropts
       = Inr \<lparr>verified = False, registrationInfo = None\<rparr>" for aopts ropts
    by (simp_all add: rejecting_env_def)
  have ni: "verifyRegistrationResponse no_info_env ropts
              = Inr \<lparr>verified = True, registrationInfo = None\<rparr>" for ropts
    by (simp add: no_info_env_def)
  note thrown = verifier_error_message_returned [OF u ch ne, of "failing_env ''bad origin''"
        "answer ''cred-1'' ''c3''" "''bad origin''" "hd (devices alice)"
        "failing_env ''bad signature''" "''bad signature''"]
  note rejected = verifier_error_message_returned [OF u ch ne, of rejecting_env
        "answer ''cred-1'' ''c3''" "''bad origin''" "hd (devices alice)"
        rejecting_env "''bad origin''"]
  note no_info = verifier_error_message_returned [OF u ch ne, of no_info_env
        "answer ''cred-1'' ''c3''" "''bad origin''" "hd (devices alice)"
        no_info_env "''bad origin''"]
  have a: "snd (register_verify (failing_env ''bad origin'') alice_login_pending 21 ''alice''
          (answer ''cred-1'' ''c3'')) = reply 400 (JError ''bad origin'') \<and>
   snd (login_verify (failing_env ''bad origin'') alice_login_pending 21 ''alice''
          (answer ''cred-1'' ''c3'')) = reply 400 (JError ''bad origin'') \<and>
   snd (login_verify (failing_env ''bad origin'') alice_login_pending 21 ''alice''
          (answer ''cred-1'' ''c3''))
     \<noteq> snd (login_verify (failing_env ''bad signature'') alice_login_pending 21 ''alice''
          (answer ''cred-1'' ''c3'')) \<and>
   snd (register_verify (failing_env ''bad origin'') alice_login_pending 21 ''alice''
          (answer ''cred-1'' ''c3'')) \<noteq> reply 400 (JVerified False)"
    using thrown d by (auto simp: v w)
  have b: "snd (register_verify rejecting_env alice_login_pending 21 ''alice''
          (answer ''cred-1'' ''c3'')) = reply 400 (JVerified False) \<and>
       snd (login_verify rejecting_env alice_login_pending 21 ''alice''
          (answer ''cred-1'' ''c3'')) = reply 400 (JVerified False)"
    using rejected d by (simp add: rj)
  have c: "snd (register_verify no_info_env alice_login_pending 21 ''alice''
          (answer ''cred-1'' ''c3'')) = reply 400 (JVerified False)"
    using no_info by (simp add: ni)
  show ?thesis
    using u ch d a b c by blast
qed

text \<open>
  The specification has the failure reason hidden; the code sends it: two verifiers that
  throw different errors give different responses, each carrying its message.
\<close>

theorem failure_reason_revealed:
  "snd (register_verify (failing_env ''bad origin'') alice_pending 11 ''alice''
          (answer ''cred-1'' ''c1'')) = reply 400 (JError ''bad origin'') \<and>
   snd (register_verify (failing_env ''bad signature'') alice_pending 11 ''alice''
          (answer ''cred-1'' ''c1'')) = reply 400 (JError ''bad signature'') \<and>
   snd (register_verify (failing_env ''bad origin'') alice_pending 11 ''alice''
          (answer ''cred-1'' ''c1''))
     \<noteq> snd (register_verify (failing_env ''bad signature'') alice_pending 11 ''alice''
          (answer ''cred-1'' ''c1''))"
  by (simp add: example_defs failing_env_def route_defs)

subsection \<open>Registering a credential id that is already stored\<close>

lemma map_of_lru_set_present:
  "map_of c k = Some x \<Longrightarrow>
   map_of (lru_set m now k v c) k' = (if k' = k then Some (v, now) else map_of c k')"
  by (simp add: lru_set_def map_of_lru_delete)

lemma lru_peek_map_of: "lru_peek ttl now k c = Some v \<Longrightarrow> \<exists>start. map_of c k = Some (v, start)"
  by (auto simp: lru_peek_def split: option.splits if_splits)

lemma register_verify_accepted:
  assumes "lru_peek userTTL now name (userCache s) = Some u"
    and "lru_peek challengeTTL now (user_id u) (challengeCache s) = Some ch"
    and "ch \<noteq> []"
    and "verifyRegistrationResponse e
           \<lparr>response = resp, expectedChallenge = ch, expectedOrigin = origin e,
            expectedRPID = rpID e\<rparr> = Inr v"
    and "verified v"
    and "registrationInfo v = Some info"
  shows "register_verify e s now name resp =
           (\<lparr>userCache = lru_set userMax now name
                (u\<lparr>devices := devices u @
                   [\<lparr>credentialPublicKey = cred_publicKey info, credentialID = cred_id info,
                     counter = cred_counter info, transports = response_transports resp\<rparr>]\<rparr>)
                (fst (lru_get userTTL now name (userCache s))),
             challengeCache = lru_delete (user_id u)
                (fst (lru_get challengeTTL now (user_id u) (challengeCache s)))\<rparr>,
            reply 200 (JVerified True))"
  using assms(4-6) by (simp add: register_verify_live [OF assms(1-3)])

text \<open>
  C2, as the code has it. \<open>/register/verify\<close> does not look for the credential id in the
  store. For a user with a live entry and a live challenge, whenever the verifier approves
  the response, the route answers \<open>verified: true\<close> and appends the new device to the
  user's list, also when some stored user (this one or another) already has a device with
  that credential id; the other user's entry stays as it is.
\<close>

theorem duplicate_credential_appended:
  assumes "lru_peek userTTL now name (userCache s) = Some u"
    and "lru_peek challengeTTL now (user_id u) (challengeCache s) = Some ch"
    and "ch \<noteq> []"
    and "verifyRegistrationResponse e
           \<lparr>response = resp, expectedChallenge = ch, expectedOrigin = origin e,
            expectedRPID = rpID e\<rparr> = Inr v"
    and "verified v"
    and "registrationInfo v = Some info"
    and "map_of (userCache s) other = Some (owner, start)"
    and "d \<in> set (devices owner)"
    and "credentialID d = cred_id info"
  shows "snd (register_verify e s now name resp) = reply 200 (JVerified True) \<and>
         lru_peek userTTL now name (userCache (fst (register_verify e s now name resp))) =
           Some (u\<lparr>devices := devices u @
                   [\<lparr>credentialPublicKey = cred_publicKey info, credentialID = cred_id info,
                     counter = cred_counter info, transports = response_transports resp\<rparr>]\<rparr>) \<and>
         (other \<noteq> name \<longrightarrow>
            map_of (userCache (fst (register_verify e s now name resp))) other
              = Some (owner, start))"
proof -
  let ?c = "fst (lru_get userTTL now name (userCache s))"
  obtain st where "map_of (userCache s) name = Some (u, st)"
    using lru_peek_map_of [OF assms(1)] by blast
  then have here: "map_of ?c name = Some (u, st)"
    using assms(1) by (simp add: map_of_lru_get)
  have there: "other \<noteq> name \<Longrightarrow> map_of ?c other = Some (owner, start)"
    using assms(7) by (simp add: map_of_lru_get)
  show ?thesis
    using there
    by (simp add: register_verify_accepted [OF assms(1-6)] lru_peek_set_same isStale_def
        map_of_lru_set_present [OF here])
qed

theorem duplicate_credential_appended_witness:
  "lru_peek userTTL 31 ''bob'' (userCache bob_pending) = Some bob_new \<and>
   lru_peek challengeTTL 31 (user_id bob_new) (challengeCache bob_pending) = Some ''c5'' \<and>
   map_of (userCache bob_pending) ''alice'' = Some (alice, 11) \<and>
   hd (devices alice) \<in> set (devices alice) \<and>
   credentialID (hd (devices alice)) = ''cred-1'' \<and>
   snd (register_verify demo_env bob_pending 31 ''bob'' (answer ''cred-1'' ''c5''))
     = reply 200 (JVerified True) \<and>
   lru_peek userTTL 31 ''bob''
     (userCache (fst (register_verify demo_env bob_pending 31 ''bob'' (answer ''cred-1'' ''c5''))))
     = Some \<lparr>user_id = ''u2'', username = ''bob'', devices = devices alice\<rparr> \<and>
   map_of (userCache (fst (register_verify demo_env bob_pending 31 ''bob''
      (answer ''cred-1'' ''c5'')))) ''alice'' = Some (alice, 11)"
proof -
  have u: "lru_peek userTTL 31 ''bob'' (userCache bob_pending) = Some bob_new"
    by (simp add: example_defs lru_peek_def isStale_def userTTL_def)
  have ch: "lru_peek challengeTTL 31 (user_id bob_new) (challengeCache bob_pending) = Some ''c5''"
    by (simp add: example_defs lru_peek_def isStale_def challengeTTL_def)
  have ne: "''c5'' \<noteq> []" by simp
  have v: "verifyRegistrationResponse demo_env
             \<lparr>response = answer ''cred-1'' ''c5'', expectedChallenge = ''c5'',
              expectedOrigin = origin demo_env, expectedRPID = rpID demo_env\<rparr>
           = Inr \<lparr>verified = True,
                  registrationInfo = Some \<lparr>cred_id = ''cred-1'', cred_publicKey = ''pk'',
                                            cred_counter = 0\<rparr>\<rparr>"
    by (simp add: example_defs)
  have a: "map_of (userCache bob_pending) ''alice'' = Some (alice, 11)"
    by (simp add: example_defs)
  have d: "hd (devices alice) \<in> set (devices alice)"
    "credentialID (hd (devices alice)) = ''cred-1''"
    by (simp_all add: example_defs)
  have other: "''alice'' \<noteq> ''bob''" by simp
  show ?thesis
    using u ch a d other
      duplicate_credential_appended [OF u ch ne v _ _ a d(1), of
        "\<lparr>cred_id = ''cred-1'', cred_publicKey = ''pk'', cred_counter = 0\<rparr>"]
    by (simp add: example_defs)
qed

text \<open>
  The specification has the second registration of a credential id fail with
  DuplicateCredential; the code accepts it: Alice holds \<open>cred-1\<close>, Bob registers
  \<open>cred-1\<close>, the answer is \<open>verified: true\<close>, and both users hold a device
  \<open>cred-1\<close> afterwards.
\<close>

lemma bob_registers_cred_1:
  "register_verify demo_env bob_pending 31 ''bob'' (answer ''cred-1'' ''c5'') =
     (\<lparr>userCache =
         [(''bob'', \<lparr>user_id = ''u2'', username = ''bob'', devices = devices alice\<rparr>, 31),
          (''alice'', alice, 11)],
       challengeCache = []\<rparr>,
      reply 200 (JVerified True))"
  by (simp add: example_defs route_defs)

theorem duplicate_credential_accepted:
  "map_of (userCache bob_pending) ''alice'' = Some (alice, 11) \<and>
   map credentialID (devices alice) = [''cred-1''] \<and>
   register_verify demo_env bob_pending 31 ''bob'' (answer ''cred-1'' ''c5'') =
     (\<lparr>userCache =
         [(''bob'', \<lparr>user_id = ''u2'', username = ''bob'', devices = devices alice\<rparr>, 31),
          (''alice'', alice, 11)],
       challengeCache = []\<rparr>,
      reply 200 (JVerified True))"
  by (simp add: bob_registers_cred_1) (simp add: example_defs)

subsection \<open>Registration, from options to verification\<close>

lemma challengeTTL_le_userTTL: "challengeTTL \<le> userTTL"
  by (simp add: challengeTTL_def userTTL_def)

lemma register_options_user_later:
  "name \<noteq> [] \<Longrightarrow>
   lru_peek userTTL now' name (userCache (fst (register_options e s now uuid chal name))) =
     (case lru_peek userTTL now name (userCache s) of
        Some u \<Rightarrow> lru_peek userTTL now' name (userCache s)
      | None \<Rightarrow> if isStale userTTL now' now then None
                else Some \<lparr>user_id = uuid, username = name, devices = []\<rparr>)"
  by (simp add: register_options_eq lru_peek_get lru_peek_set_same split: option.splits)

lemma register_options_user:
  "name \<noteq> [] \<Longrightarrow>
   lru_peek userTTL now name (userCache (fst (register_options e s now uuid chal name))) =
     Some (case lru_peek userTTL now name (userCache s) of
             Some u \<Rightarrow> u
           | None \<Rightarrow> \<lparr>user_id = uuid, username = name, devices = []\<rparr>)"
  by (simp add: register_options_user_later isStale_def split: option.splits)

lemma register_options_challenge:
  "name \<noteq> [] \<Longrightarrow>
   lru_peek challengeTTL now'
     (user_id (case lru_peek userTTL now name (userCache s) of
                 Some u \<Rightarrow> u
               | None \<Rightarrow> \<lparr>user_id = uuid, username = name, devices = []\<rparr>))
     (challengeCache (fst (register_options e s now uuid chal name))) =
     (if isStale challengeTTL now' now then None else Some chal)"
  by (simp add: register_options_eq lru_peek_set_same split: option.splits)

lemma register_options_reply:
  "name \<noteq> [] \<Longrightarrow>
   snd (register_options e s now uuid chal name) =
     reply 200 (JRegistrationOptions (generateRegistrationOptions e
       (case lru_peek userTTL now name (userCache s) of
          Some u \<Rightarrow> u
        | None \<Rightarrow> \<lparr>user_id = uuid, username = name, devices = []\<rparr>) chal))"
  by (simp add: register_options_eq split: option.splits)

text \<open>
  C4. For a non-empty username, \<open>/register/options\<close> answers 200 with options that carry
  the challenge drawn (taken to be non-empty, as the generator's is), for the user of that
  name: the live entry as it was, devices included, or else the new user with the fresh id
  and no devices. If \<open>/register/verify\<close> follows before the challenge expires and, for a
  user that existed, before the user's entry expires, then it answers \<open>verified: true\<close>
  exactly when the verifier accepts the response against that challenge, and then the
  user's list is that user's list from before with exactly one device appended: credential
  id, public key and counter from the verifier's result, transports from the client's
  response.
\<close>

theorem register_then_verify:
  assumes "name \<noteq> []" and "chal \<noteq> []"
    and "now' \<le> now + challengeTTL"
    and "lru_has userTTL now name (userCache s) \<longrightarrow> lru_has userTTL now' name (userCache s)"
  shows "let u1 = (case lru_peek userTTL now name (userCache s) of
                     Some u \<Rightarrow> u
                   | None \<Rightarrow> \<lparr>user_id = uuid, username = name, devices = []\<rparr>);
             s1 = fst (register_options e s now uuid chal name);
             opts = \<lparr>response = resp, expectedChallenge = chal, expectedOrigin = origin e,
                     expectedRPID = rpID e\<rparr>
         in snd (register_options e s now uuid chal name)
              = reply 200 (JRegistrationOptions (generateRegistrationOptions e u1 chal)) \<and>
            reg_challenge (generateRegistrationOptions e u1 chal) = chal \<and>
            lru_peek userTTL now name (userCache s1) = Some u1 \<and>
            (verifyRegistrationResponse e opts = Inr v \<and> verified v \<and>
             registrationInfo v = Some info \<longrightarrow>
               snd (register_verify e s1 now' name resp) = reply 200 (JVerified True) \<and>
               lru_peek userTTL now' name (userCache (fst (register_verify e s1 now' name resp)))
                 = Some (u1\<lparr>devices := devices u1 @
                      [\<lparr>credentialPublicKey = cred_publicKey info, credentialID = cred_id info,
                        counter = cred_counter info,
                        transports = response_transports resp\<rparr>]\<rparr>)) \<and>
            (snd (register_verify e s1 now' name resp) = reply 200 (JVerified True) \<longleftrightarrow>
               (\<exists>rv i. verifyRegistrationResponse e opts = Inr rv \<and> verified rv \<and>
                       registrationInfo rv = Some i))"
proof -
  let ?s1 = "fst (register_options e s now uuid chal name)"
  let ?u1 = "case lru_peek userTTL now name (userCache s) of
               Some u \<Rightarrow> u
             | None \<Rightarrow> \<lparr>user_id = uuid, username = name, devices = []\<rparr>"
  let ?opts = "\<lparr>response = resp, expectedChallenge = chal, expectedOrigin = origin e,
                expectedRPID = rpID e\<rparr>"
  have fresh: "\<not> isStale challengeTTL now' now" "\<not> isStale userTTL now' now"
    using assms(3) challengeTTL_le_userTTL by (simp_all add: isStale_def)
  have "lru_peek userTTL now name (userCache s) = Some u \<Longrightarrow>
          lru_peek userTTL now' name (userCache s) = Some u" for u
    using assms(4)
    by (auto simp: lru_has_def lru_peek_def split: option.splits if_splits)
  then have u: "lru_peek userTTL now' name (userCache ?s1) = Some ?u1"
    using fresh(2) by (simp add: register_options_user_later [OF assms(1)] split: option.splits)
  have ch: "lru_peek challengeTTL now' (user_id ?u1) (challengeCache ?s1) = Some chal"
    using fresh(1) by (simp add: register_options_challenge [OF assms(1)])
  note live = register_verify_live [OF u ch assms(2)]
  have a: "snd (register_options e s now uuid chal name)
              = reply 200 (JRegistrationOptions (generateRegistrationOptions e ?u1 chal))"
    by (rule register_options_reply [OF assms(1)])
  have b: "reg_challenge (generateRegistrationOptions e ?u1 chal) = chal"
    by (simp add: generateRegistrationOptions_def)
  have c: "lru_peek userTTL now name (userCache ?s1) = Some ?u1"
    by (rule register_options_user [OF assms(1)])
  have d: "verifyRegistrationResponse e ?opts = Inr v \<Longrightarrow> verified v \<Longrightarrow>
           registrationInfo v = Some info \<Longrightarrow>
             snd (register_verify e ?s1 now' name resp) = reply 200 (JVerified True) \<and>
             lru_peek userTTL now' name (userCache (fst (register_verify e ?s1 now' name resp)))
               = Some (?u1\<lparr>devices := devices ?u1 @
                    [\<lparr>credentialPublicKey = cred_publicKey info, credentialID = cred_id info,
                      counter = cred_counter info,
                      transports = response_transports resp\<rparr>]\<rparr>)"
    by (simp add: register_verify_accepted [OF u ch assms(2)] lru_peek_set_same isStale_def)
  have e: "snd (register_verify e ?s1 now' name resp) = reply 200 (JVerified True) \<longleftrightarrow>
             (\<exists>rv i. verifyRegistrationResponse e ?opts = Inr rv \<and> verified rv \<and>
                     registrationInfo rv = Some i)"
    by (auto simp: live Let_def reply_def split: sum.splits option.splits)
  show ?thesis
    unfolding Let_def using a b c d e by blast
qed

theorem register_then_verify_witness:
  "''alice'' \<noteq> [] \<and> ''c1'' \<noteq> [] \<and> ''c3'' \<noteq> [] \<and>
   (11::nat) \<le> 10 + challengeTTL \<and> (21::nat) \<le> 20 + challengeTTL \<and>
   \<not> lru_has userTTL 10 ''alice'' (userCache init_state) \<and>
   snd (register_options demo_env init_state 10 ''u1'' ''c1'' ''alice'')
     = reply 200 (JRegistrationOptions (generateRegistrationOptions demo_env alice_new ''c1'')) \<and>
   snd (register_verify demo_env
          (fst (register_options demo_env init_state 10 ''u1'' ''c1'' ''alice''))
          11 ''alice'' (answer ''cred-1'' ''c1''))
     = reply 200 (JVerified True) \<and>
   lru_peek userTTL 11 ''alice''
     (userCache (fst (register_verify demo_env
        (fst (register_options demo_env init_state 10 ''u1'' ''c1'' ''alice''))
        11 ''alice'' (answer ''cred-1'' ''c1''))))
     = Some (alice_new\<lparr>devices := devices alice_new @
          [\<lparr>credentialPublicKey = ''pk'', credentialID = ''cred-1'', counter = 0,
            transports = Some [''internal'']\<rparr>]\<rparr>) \<and>
   lru_has userTTL 20 ''alice'' (userCache alice_registered) \<and>
   lru_has userTTL 21 ''alice'' (userCache alice_registered) \<and>
   lru_peek userTTL 20 ''alice'' (userCache alice_registered) = Some alice \<and>
   map credentialID (devices alice) = [''cred-1''] \<and>
   snd (register_verify demo_env
          (fst (register_options demo_env alice_registered 20 ''u9'' ''c3'' ''alice''))
          21 ''alice'' (answer ''cred-2'' ''c3''))
     = reply 200 (JVerified True) \<and>
   lru_peek userTTL 21 ''alice''
     (userCache (fst (register_verify demo_env
        (fst (register_options demo_env alice_registered 20 ''u9'' ''c3'' ''alice''))
        21 ''alice'' (answer ''cred-2'' ''c3''))))
     = Some (alice\<lparr>devices := devices alice @
          [\<lparr>credentialPublicKey = ''pk'', credentialID = ''cred-2'', counter = 0,
            transports = Some [''internal'']\<rparr>]\<rparr>) \<and>
   snd (register_verify demo_env
          (fst (register_options demo_env alice_registered 20 ''u9'' ''c3'' ''alice''))
          21 ''alice'' (answer ''cred-2'' ''c0''))
     \<noteq> reply 200 (JVerified True)"
proof -
  have n: "''alice'' \<noteq> []" and c1: "''c1'' \<noteq> []" and c3: "''c3'' \<noteq> []" by simp_all
  have t1: "(11::nat) \<le> 10 + challengeTTL" and t2: "(21::nat) \<le> 20 + challengeTTL"
    by (simp_all add: challengeTTL_def)
  have h1: "\<not> lru_has userTTL 10 ''alice'' (userCache init_state)"
    by (simp add: init_state_def lru_has_def)
  have h2: "lru_has userTTL 20 ''alice'' (userCache alice_registered)"
    "lru_has userTTL 21 ''alice'' (userCache alice_registered)"
    by (simp_all add: example_defs lru_has_def isStale_def userTTL_def)
  have p1: "lru_peek userTTL 10 ''alice'' (userCache init_state) = None"
    by (simp add: init_state_def lru_peek_def)
  have p2: "lru_peek userTTL 20 ''alice'' (userCache alice_registered) = Some alice"
    by (simp add: example_defs lru_peek_def isStale_def userTTL_def)
  have ids: "map credentialID (devices alice) = [''cred-1'']"
    by (simp add: alice_def)
  have v: "verifyRegistrationResponse demo_env
             \<lparr>response = answer cid chal, expectedChallenge = chal,
              expectedOrigin = origin demo_env, expectedRPID = rpID demo_env\<rparr>
           = Inr \<lparr>verified = True,
                  registrationInfo = Some \<lparr>cred_id = cid, cred_publicKey = ''pk'',
                                            cred_counter = 0\<rparr>\<rparr>" for cid chal
    by (simp add: example_defs)
  have w: "verifyRegistrationResponse demo_env
             \<lparr>response = answer ''cred-2'' ''c0'', expectedChallenge = ''c3'',
              expectedOrigin = origin demo_env, expectedRPID = rpID demo_env\<rparr>
           = Inl ''Unexpected registration response challenge''"
    by (simp add: example_defs)
  have rt: "response_transports (answer cid chal) = Some [''internal'']" for cid chal
    by (simp add: answer_def)
  have first: "snd (register_options demo_env init_state 10 ''u1'' ''c1'' ''alice'')
     = reply 200 (JRegistrationOptions (generateRegistrationOptions demo_env alice_new ''c1'')) \<and>
   snd (register_verify demo_env
          (fst (register_options demo_env init_state 10 ''u1'' ''c1'' ''alice''))
          11 ''alice'' (answer ''cred-1'' ''c1''))
     = reply 200 (JVerified True) \<and>
   lru_peek userTTL 11 ''alice''
     (userCache (fst (register_verify demo_env
        (fst (register_options demo_env init_state 10 ''u1'' ''c1'' ''alice''))
        11 ''alice'' (answer ''cred-1'' ''c1''))))
     = Some (alice_new\<lparr>devices := devices alice_new @
          [\<lparr>credentialPublicKey = ''pk'', credentialID = ''cred-1'', counter = 0,
            transports = Some [''internal'']\<rparr>]\<rparr>)"
    using h1 register_then_verify [OF n c1 t1, of init_state "''u1''" demo_env
        "answer ''cred-1'' ''c1''"
        "\<lparr>verified = True,
          registrationInfo = Some \<lparr>cred_id = ''cred-1'', cred_publicKey = ''pk'',
                                    cred_counter = 0\<rparr>\<rparr>"
        "\<lparr>cred_id = ''cred-1'', cred_publicKey = ''pk'', cred_counter = 0\<rparr>"]
    by (simp add: Let_def p1 v alice_new_def rt)
  have second: "snd (register_verify demo_env
          (fst (register_options demo_env alice_registered 20 ''u9'' ''c3'' ''alice''))
          21 ''alice'' (answer ''cred-2'' ''c3''))
     = reply 200 (JVerified True) \<and>
   lru_peek userTTL 21 ''alice''
     (userCache (fst (register_verify demo_env
        (fst (register_options demo_env alice_registered 20 ''u9'' ''c3'' ''alice''))
        21 ''alice'' (answer ''cred-2'' ''c3''))))
     = Some (alice\<lparr>devices := devices alice @
          [\<lparr>credentialPublicKey = ''pk'', credentialID = ''cred-2'', counter = 0,
            transports = Some [''internal'']\<rparr>]\<rparr>)"
    using h2 register_then_verify [OF n c3 t2, of alice_registered "''u9''" demo_env
        "answer ''cred-2'' ''c3''"
        "\<lparr>verified = True,
          registrationInfo = Some \<lparr>cred_id = ''cred-2'', cred_publicKey = ''pk'',
                                    cred_counter = 0\<rparr>\<rparr>"
        "\<lparr>cred_id = ''cred-2'', cred_publicKey = ''pk'', cred_counter = 0\<rparr>"]
    by (simp add: Let_def p2 v rt)
  have third: "snd (register_verify demo_env
          (fst (register_options demo_env alice_registered 20 ''u9'' ''c3'' ''alice''))
          21 ''alice'' (answer ''cred-2'' ''c0''))
     \<noteq> reply 200 (JVerified True)"
    using h2 register_then_verify [OF n c3 t2, of alice_registered "''u9''" demo_env
        "answer ''cred-2'' ''c0''"]
    by (simp add: Let_def w)
  show ?thesis
    using n c1 c3 t1 t2 h1 h2 p2 ids first second third by blast
qed

subsection \<open>One slot for both ceremonies\<close>

lemma login_options_user_later:
  "lru_peek userTTL now name (userCache s) = Some u \<Longrightarrow>
   lru_peek userTTL now' name (userCache (fst (login_options e s now chal name))) =
     lru_peek userTTL now' name (userCache s)"
  by (simp add: login_options_eq lru_peek_get)

lemma login_options_challenge:
  "lru_peek userTTL now name (userCache s) = Some u \<Longrightarrow>
   lru_peek challengeTTL now' (user_id u)
     (challengeCache (fst (login_options e s now chal name))) =
     (if isStale challengeTTL now' now then None else Some chal)"
  by (simp add: login_options_eq lru_peek_set_same)


text \<open>
  C10. The challenge of a user is stored under the user's id alone. For a user with a live
  entry, and before the challenge expires: the challenge stored by \<open>/register/options\<close>
  is in the slot that \<open>/login/verify\<close> reads, and the answer of a following
  \<open>/login/verify\<close> is what the authentication verifier says about the response with that
  challenge as \<open>expectedChallenge\<close> and the stored device as credential; the challenge
  stored by \<open>/login/options\<close> is in the slot that \<open>/register/verify\<close> reads, and the
  answer of a following \<open>/register/verify\<close> is what the registration verifier says
  about the response with that challenge as \<open>expectedChallenge\<close>; and an options request
  of either kind after one of the other kind leaves only its own challenge under the
  user's id.
\<close>

theorem shared_challenge_slot:
  assumes "name \<noteq> []" and "chal \<noteq> []"
    and "lru_peek userTTL now name (userCache s) = Some u"
    and "lru_peek userTTL now' name (userCache s) = Some u"
    and "now' \<le> now + challengeTTL"
  shows "lru_peek challengeTTL now' (user_id u)
           (challengeCache (fst (register_options e s now uuid chal name))) = Some chal \<and>
         lru_peek challengeTTL now' (user_id u)
           (challengeCache (fst (login_options e s now chal name))) = Some chal \<and>
         snd (login_verify e (fst (register_options e s now uuid chal name)) now' name resp) =
           (case find (\<lambda>d. credentialID d = response_id resp) (devices u) of
              None \<Rightarrow> reply 400 (JError ''Authenticator not found for this user'')
            | Some d \<Rightarrow>
               (case verifyAuthenticationResponse e
                       \<lparr>response = resp, expectedChallenge = chal, expectedOrigin = origin e,
                        expectedRPID = rpID e, credential = d\<rparr> of
                  Inl msg \<Rightarrow> reply 400 (JError msg)
                | Inr av \<Rightarrow>
                    if verified_auth av
                    then \<lparr>status = 200, body = JVerified True, cookie = SetCookie name\<rparr>
                    else reply 400 (JVerified False))) \<and>
         snd (register_verify e (fst (login_options e s now chal name)) now' name resp) =
           (case verifyRegistrationResponse e
                   \<lparr>response = resp, expectedChallenge = chal, expectedOrigin = origin e,
                    expectedRPID = rpID e\<rparr> of
              Inl msg \<Rightarrow> reply 400 (JError msg)
            | Inr rv \<Rightarrow>
               (case registrationInfo rv of
                  None \<Rightarrow> reply 400 (JVerified False)
                | Some info \<Rightarrow>
                    if verified rv then reply 200 (JVerified True)
                    else reply 400 (JVerified False))) \<and>
         filter (\<lambda>x. fst x = user_id u)
           (challengeCache (fst (login_options e
              (fst (register_options e s now uuid chal name)) now' chal' name)))
           = [(user_id u, chal', now')] \<and>
         filter (\<lambda>x. fst x = user_id u)
           (challengeCache (fst (register_options e
              (fst (login_options e s now chal name)) now' uuid' chal' name)))
           = [(user_id u, chal', now')]"
proof -
  let ?r = "fst (register_options e s now uuid chal name)"
  let ?l = "fst (login_options e s now chal name)"
  have fresh: "\<not> isStale challengeTTL now' now"
    using assms(5) by (simp add: isStale_def)
  have ur: "lru_peek userTTL now' name (userCache ?r) = Some u"
    using assms(3,4) by (simp add: register_options_user_later [OF assms(1)])
  have ul: "lru_peek userTTL now' name (userCache ?l) = Some u"
    using assms(4) by (simp add: login_options_user_later [OF assms(3)])
  have cr: "lru_peek challengeTTL now' (user_id u) (challengeCache ?r) = Some chal"
    using register_options_challenge [OF assms(1), where now' = now' and now = now and s = s
        and uuid = uuid and e = e and chal = chal] assms(3) fresh
    by simp
  have cl: "lru_peek challengeTTL now' (user_id u) (challengeCache ?l) = Some chal"
    using fresh by (simp add: login_options_challenge [OF assms(3)])
  have a: "snd (login_verify e ?r now' name resp) =
           (case find (\<lambda>d. credentialID d = response_id resp) (devices u) of
              None \<Rightarrow> reply 400 (JError ''Authenticator not found for this user'')
            | Some d \<Rightarrow>
               (case verifyAuthenticationResponse e
                       \<lparr>response = resp, expectedChallenge = chal, expectedOrigin = origin e,
                        expectedRPID = rpID e, credential = d\<rparr> of
                  Inl msg \<Rightarrow> reply 400 (JError msg)
                | Inr av \<Rightarrow>
                    if verified_auth av
                    then \<lparr>status = 200, body = JVerified True, cookie = SetCookie name\<rparr>
                    else reply 400 (JVerified False)))"
    by (simp add: login_verify_live [OF ur cr assms(2)] Let_def split: option.splits sum.splits)
  have b: "snd (register_verify e ?l now' name resp) =
           (case verifyRegistrationResponse e
                   \<lparr>response = resp, expectedChallenge = chal, expectedOrigin = origin e,
                    expectedRPID = rpID e\<rparr> of
              Inl msg \<Rightarrow> reply 400 (JError msg)
            | Inr rv \<Rightarrow>
               (case registrationInfo rv of
                  None \<Rightarrow> reply 400 (JVerified False)
                | Some info \<Rightarrow>
                    if verified rv then reply 200 (JVerified True)
                    else reply 400 (JVerified False)))"
    by (simp add: register_verify_live [OF ul cl assms(2)] Let_def
        split: option.splits sum.splits)
  have c: "filter (\<lambda>x. fst x = user_id u)
             (challengeCache (fst (login_options e ?r now' chal' name)))
           = [(user_id u, chal', now')]"
    by (simp add: login_options_eq ur filter_lru_set)
  have d: "filter (\<lambda>x. fst x = user_id u)
             (challengeCache (fst (register_options e ?l now' uuid' chal' name)))
           = [(user_id u, chal', now')]"
    by (simp add: register_options_eq [OF assms(1)] ul filter_lru_set)
  show ?thesis
    using cr cl a b c d by blast
qed

theorem shared_challenge_slot_witness:
  "lru_peek userTTL 20 ''alice'' (userCache alice_registered) = Some alice \<and>
   lru_peek userTTL 21 ''alice'' (userCache alice_registered) = Some alice \<and>
   (21::nat) \<le> 20 + challengeTTL \<and>
   find (\<lambda>d. credentialID d = ''cred-1'') (devices alice) = Some (hd (devices alice)) \<and>
   lru_peek challengeTTL 21 ''u1''
     (challengeCache (fst (register_options demo_env alice_registered 20 ''u9'' ''c3'' ''alice'')))
     = Some ''c3'' \<and>
   snd (login_verify demo_env
          (fst (register_options demo_env alice_registered 20 ''u9'' ''c3'' ''alice''))
          21 ''alice'' (answer ''cred-1'' ''c3''))
     = \<lparr>status = 200, body = JVerified True, cookie = SetCookie ''alice''\<rparr> \<and>
   snd (login_verify demo_env
          (fst (register_options demo_env alice_registered 20 ''u9'' ''c3'' ''alice''))
          21 ''alice'' (answer ''cred-1'' ''c0''))
     = reply 400 (JError ''Unexpected authentication response challenge'') \<and>
   snd (register_verify demo_env
          (fst (login_options demo_env alice_registered 20 ''c3'' ''alice''))
          21 ''alice'' (answer ''cred-1'' ''c3''))
     = reply 200 (JVerified True) \<and>
   snd (register_verify demo_env
          (fst (login_options demo_env alice_registered 20 ''c3'' ''alice''))
          21 ''alice'' (answer ''cred-1'' ''c0''))
     = reply 400 (JError ''Unexpected registration response challenge'') \<and>
   filter (\<lambda>x. fst x = ''u1'')
     (challengeCache (fst (login_options demo_env
        (fst (register_options demo_env alice_registered 20 ''u9'' ''c3'' ''alice''))
        21 ''c4'' ''alice'')))
     = [(''u1'', ''c4'', 21)] \<and>
   filter (\<lambda>x. fst x = ''u1'')
     (challengeCache (fst (register_options demo_env
        (fst (login_options demo_env alice_registered 20 ''c3'' ''alice''))
        21 ''u9'' ''c4'' ''alice'')))
     = [(''u1'', ''c4'', 21)]"
proof -
  have n: "''alice'' \<noteq> []" "''c3'' \<noteq> []" by simp_all
  have u: "lru_peek userTTL 20 ''alice'' (userCache alice_registered) = Some alice"
    by (simp add: example_defs lru_peek_def isStale_def userTTL_def)
  have u': "lru_peek userTTL 21 ''alice'' (userCache alice_registered) = Some alice"
    by (simp add: example_defs lru_peek_def isStale_def userTTL_def)
  have t: "(21::nat) \<le> 20 + challengeTTL" by (simp add: challengeTTL_def)
  have d: "find (\<lambda>d. credentialID d = ''cred-1'') (devices alice) = Some (hd (devices alice))"
    by (simp add: example_defs)
  have rid: "response_id (answer cid c) = cid" for cid c
    by (simp add: answer_def)
  have good: "verifyAuthenticationResponse demo_env
              \<lparr>response = answer ''cred-1'' ''c3'', expectedChallenge = ''c3'',
               expectedOrigin = origin demo_env, expectedRPID = rpID demo_env,
               credential = hd (devices alice)\<rparr>
            = Inr \<lparr>verified_auth = True, newCounter = 1\<rparr>"
    "verifyRegistrationResponse demo_env
             \<lparr>response = answer ''cred-1'' ''c3'', expectedChallenge = ''c3'',
              expectedOrigin = origin demo_env, expectedRPID = rpID demo_env\<rparr>
           = Inr \<lparr>verified = True,
                  registrationInfo = Some \<lparr>cred_id = ''cred-1'', cred_publicKey = ''pk'',
                                            cred_counter = 0\<rparr>\<rparr>"
    by (simp_all add: example_defs)
  have bad: "verifyAuthenticationResponse demo_env
              \<lparr>response = answer ''cred-1'' ''c0'', expectedChallenge = ''c3'',
               expectedOrigin = origin demo_env, expectedRPID = rpID demo_env,
               credential = hd (devices alice)\<rparr>
            = Inl ''Unexpected authentication response challenge''"
    "verifyRegistrationResponse demo_env
             \<lparr>response = answer ''cred-1'' ''c0'', expectedChallenge = ''c3'',
              expectedOrigin = origin demo_env, expectedRPID = rpID demo_env\<rparr>
           = Inl ''Unexpected registration response challenge''"
    by (simp_all add: example_defs)
  have i: "user_id alice = ''u1''" by (simp add: alice_def)
  note right = shared_challenge_slot [OF n u u' t, where e = demo_env and uuid = "''u9''"
      and resp = "answer ''cred-1'' ''c3''" and chal' = "''c4''" and uuid' = "''u9''"]
  note wrong = shared_challenge_slot [OF n u u' t, where e = demo_env and uuid = "''u9''"
      and resp = "answer ''cred-1'' ''c0''" and chal' = "''c4''" and uuid' = "''u9''"]
  have a: "lru_peek challengeTTL 21 ''u1''
     (challengeCache (fst (register_options demo_env alice_registered 20 ''u9'' ''c3'' ''alice'')))
     = Some ''c3'' \<and>
   snd (login_verify demo_env
          (fst (register_options demo_env alice_registered 20 ''u9'' ''c3'' ''alice''))
          21 ''alice'' (answer ''cred-1'' ''c3''))
     = \<lparr>status = 200, body = JVerified True, cookie = SetCookie ''alice''\<rparr> \<and>
   snd (register_verify demo_env
          (fst (login_options demo_env alice_registered 20 ''c3'' ''alice''))
          21 ''alice'' (answer ''cred-1'' ''c3''))
     = reply 200 (JVerified True) \<and>
   filter (\<lambda>x. fst x = ''u1'')
     (challengeCache (fst (login_options demo_env
        (fst (register_options demo_env alice_registered 20 ''u9'' ''c3'' ''alice''))
        21 ''c4'' ''alice'')))
     = [(''u1'', ''c4'', 21)] \<and>
   filter (\<lambda>x. fst x = ''u1'')
     (challengeCache (fst (register_options demo_env
        (fst (login_options demo_env alice_registered 20 ''c3'' ''alice''))
        21 ''u9'' ''c4'' ''alice'')))
     = [(''u1'', ''c4'', 21)]"
    using right by (simp add: rid d good i)
  have b: "snd (login_verify demo_env
          (fst (register_options demo_env alice_registered 20 ''u9'' ''c3'' ''alice''))
          21 ''alice'' (answer ''cred-1'' ''c0''))
     = reply 400 (JError ''Unexpected authentication response challenge'') \<and>
   snd (register_verify demo_env
          (fst (login_options demo_env alice_registered 20 ''c3'' ''alice''))
          21 ''alice'' (answer ''cred-1'' ''c0''))
     = reply 400 (JError ''Unexpected registration response challenge'')"
    using wrong by (simp add: rid d bad i)
  show ?thesis
    using u u' t d a b by blast
qed

subsection \<open>The signature counter\<close>























end
